theory Spec2Isabelle
  imports Complex_Main "HOL-Library.Log_Nat" "HOL-Library.Sublist"
begin

chapter \<open>A shallow embedding of the Intelli\_GPT retrieval and ingestion core\<close>

text \<open>
  The development follows the Python sources: the score normalisation and fusion of
  \<^verbatim>\<open>app/pipelines/query_pipeline.py\<close>, the embedding services of
  \<^verbatim>\<open>app/services/embeddings\<close>, the repository of
  \<^verbatim>\<open>app/services/vectordb_qdrant/queries.py\<close>, the answer generator of
  \<^verbatim>\<open>app/services/llm_gemini/answer_generator.py\<close> and the ingestion pipeline of
  \<^verbatim>\<open>app/pipelines/ingestion_pipeline.py\<close>.  All definitions come first, the
  lemmas and the theorems about the specification follow.
\<close>

section \<open>Python values: exceptions and strings\<close>

text \<open>
  An exception is its class and its message; \<open>str(e)\<close> is the message.  Only classes
  derived from \<open>Exception\<close> are modelled, which is what the \<open>except Exception\<close>
  clauses of the sources catch.  A fallible call returns \<open>exn + 'a\<close>, \<open>Inl\<close> being the
  raised exception.
\<close>

datatype exc_class =
  TypeError | ValueError | RuntimeError | UnexpectedResponse | ConnectionError | OtherError

datatype exn = Exn exc_class string

fun str_exn :: "exn \<Rightarrow> string" where
  "str_exn (Exn c m) = m"

text \<open>
  Strings are byte strings.  \<open>lower\<close> is \<open>str.lower\<close> on ASCII letters, \<open>py_in s t\<close> is
  the substring test \<open>s in t\<close>, \<open>strip\<close> is \<open>str.strip()\<close>, which removes the ASCII
  white space characters (codes 9 to 13, 28 to 31 and 32) at both ends, and \<open>join\<close> is
  \<open>sep.join(parts)\<close>.
\<close>

definition lower_char :: "char \<Rightarrow> char" where
  "lower_char c =
     (if 65 \<le> (of_char c :: nat) \<and> (of_char c :: nat) \<le> 90
      then char_of ((of_char c :: nat) + 32) else c)"

definition lower :: "string \<Rightarrow> string" where
  "lower s = map lower_char s"

fun py_in :: "string \<Rightarrow> string \<Rightarrow> bool" where
  "py_in s [] = (s = [])"
| "py_in s (c # cs) = (prefix s (c # cs) \<or> py_in s cs)"

definition is_space :: "char \<Rightarrow> bool" where
  "is_space c = (let n = (of_char c :: nat) in (9 \<le> n \<and> n \<le> 13) \<or> (28 \<le> n \<and> n \<le> 32))"

definition strip :: "string \<Rightarrow> string" where
  "strip s = rev (dropWhile is_space (rev (dropWhile is_space s)))"

fun join :: "string \<Rightarrow> string list \<Rightarrow> string" where
  "join sep [] = []"
| "join sep [p] = p"
| "join sep (p # q # ps) = p @ sep @ join sep (q # ps)"

definition digit_char :: "nat \<Rightarrow> char" where
  "digit_char d = char_of (48 + d)"

fun str_nat :: "nat \<Rightarrow> string" where
  "str_nat n = (if n < 10 then [digit_char n] else str_nat (n div 10) @ [digit_char (n mod 10)])"

definition str_int :: "int \<Rightarrow> string" where
  "str_int i = (if i < 0 then CHR ''-'' # str_nat (nat (- i)) else str_nat (nat i))"

definition newline :: char where
  "newline = CHR 0x0A"

definition apostrophe :: char where
  "apostrophe = CHR 0x27"

section \<open>Floating-point numbers\<close>

text \<open>
  A finite floating-point value is the real number it denotes.  \<open>fl_round p\<close> rounds a
  real to the nearest binary floating-point number with a significand of \<open>p\<close> bits,
  ties to even, as IEEE 754 does by default; \<open>f32\<close> is the conversion to
  \<open>numpy.float32\<close> and the rounding of every \<open>float32\<close> operation, \<open>f64\<close> the rounding
  of Python's \<open>float\<close> operations and literals.  The exponent range is not bounded:
  overflow to infinity, subnormal numbers and NaN are outside the model, which therefore
  speaks of values in the normal range of the two formats (similarity scores and
  embedding coordinates are).  \<open>fexp x\<close> is the exponent \<open>e\<close> with
  \<open>2\<^sup>e \<le> \<bar>x\<bar> < 2\<^sup>e\<^sup>+\<^sup>1\<close>, computed from the integer part of \<open>\<bar>x\<bar>\<close> or of its
  inverse.
\<close>

definition rne :: "real \<Rightarrow> int" where
  "rne x = (let f = \<lfloor>x\<rfloor>; r = x - of_int f
            in if r < 1/2 then f else if 1/2 < r then f + 1
               else if even f then f else f + 1)"

definition pow2 :: "int \<Rightarrow> real" where
  "pow2 e = (if 0 \<le> e then 2 ^ nat e else 1 / 2 ^ nat (- e))"

definition fexp :: "real \<Rightarrow> int" where
  "fexp x = (if 1 \<le> \<bar>x\<bar> then int (floorlog 2 (nat \<lfloor>\<bar>x\<bar>\<rfloor>)) - 1
             else - int (floorlog 2 (nat (\<lceil>1 / \<bar>x\<bar>\<rceil> - 1))))"

definition fl_round :: "nat \<Rightarrow> real \<Rightarrow> real" where
  "fl_round p x = (if x = 0 then 0
     else let u = pow2 (fexp x - int p + 1) in of_int (rne (x / u)) * u)"

definition f32 :: "real \<Rightarrow> real" where "f32 = fl_round 24"
definition f64 :: "real \<Rightarrow> real" where "f64 = fl_round 53"



text \<open>
  \<open>round(x, 6)\<close> of Python rounds the exact value of \<open>x\<close> to six decimals, ties to
  even, and returns the nearest \<open>float\<close>.
\<close>

definition py_round6 :: "real \<Rightarrow> real" where
  "py_round6 x = f64 (of_int (rne (x * 10 ^ 6)) / 10 ^ 6)"

text \<open>
  \<open>numpy.linalg.norm\<close> of a \<open>float32\<close> vector: the square root of the sum of the
  squares, every operation rounded to \<open>float32\<close>.  The sum is accumulated from left to
  right here; the order numpy uses is not fixed by the sources, and the theorems
  below use the norm only through the test \<open>norm == 0.0\<close> and as a divisor.
\<close>

definition np_linalg_norm :: "real list \<Rightarrow> real" where
  "np_linalg_norm arr = f32 (sqrt (fold (\<lambda>a acc. f32 (acc + f32 (a * a))) arr 0))"

text \<open>
  The unit roundoff of \<open>float32\<close>, and the Euclidean length of a vector in exact
  arithmetic.
\<close>

definition eps32 :: real where
  "eps32 = 1 / 2 ^ 24"

definition l2_norm :: "real list \<Rightarrow> real" where
  "l2_norm v = sqrt (\<Sum>x\<leftarrow>v. x * x)"


section \<open>Score normalisation and fusion (QueryPipeline)\<close>

text \<open>
  \<open>QueryPipeline._normalize_scores\<close>.  The scores are Python floats.  The array \<open>arr\<close>
  is their conversion to \<open>float32\<close>, and \<open>min_v\<close> and \<open>max_v\<close> are the minimum and the
  maximum of that array, converted back to \<open>float\<close> without change.  The list
  comprehension of the last line subtracts \<open>min_v\<close> from the scores themselves, not
  from the elements of \<open>arr\<close>; the subtraction, the division and the comparison with
  the literal \<open>1e-12\<close> are \<open>float\<close> operations.
\<close>

definition normalize_scores :: "real list \<Rightarrow> real list" where
  "normalize_scores scores =
     (if scores = [] then []
      else let arr = map f32 scores;
               min_v = Min (set arr);
               max_v = Max (set arr)
           in if f64 (max_v - min_v) \<le> f64 (1 / 10 ^ 12)
              then map (\<lambda>_. 1) scores
              else map (\<lambda>s. f64 (f64 (s - min_v) / f64 (max_v - min_v))) scores)"

text \<open>
  The fused scores of \<open>answer_question\<close>:
  \<open>0.6 * ts + 0.4 * 0.0\<close> for a text hit and \<open>0.6 * 0.0 + 0.4 * iscore\<close> for an image
  hit, with the literals \<open>0.6\<close> and \<open>0.4\<close> the floats nearest to the decimals.
\<close>

definition w_text :: real where
  "w_text = f64 (6 / 10)"

definition w_image :: real where
  "w_image = f64 (4 / 10)"

definition text_fused :: "real \<Rightarrow> real" where
  "text_fused ts = f64 (f64 (w_text * ts) + f64 (w_image * 0))"

definition image_fused :: "real \<Rightarrow> real" where
  "image_fused iscore = f64 (f64 (w_text * 0) + f64 (w_image * iscore))"

text \<open>
  \<open>list.sort(key=..., reverse=True)\<close> is a stable sort in descending order: CPython
  reverses the list, sorts it stably in ascending order and reverses the result, so
  that elements with equal keys keep their original order.
\<close>

definition sort_reverse :: "('a \<Rightarrow> real) \<Rightarrow> 'a list \<Rightarrow> 'a list" where
  "sort_reverse key xs = rev (sort_key key (rev xs))"


section \<open>The embedding services\<close>

subsection \<open>TextEmbeddingService\<close>

text \<open>
  The service holds the API key that the environment look-ups of \<open>_ensure_client\<close>
  find, if any, and the behaviour of the model client: \<open>embed_content te t\<close> is the
  outcome of \<open>client.models.embed_content\<close> on the text \<open>t\<close> followed by
  \<open>_extract_embedding\<close>, either an exception or the raw vector.  The lemmas below
  hold for every such behaviour.
\<close>

record text_embedder =
  api_key :: "string option"
  embed_content :: "string \<Rightarrow> exn + real list"

definition expected_dim :: nat where
  "expected_dim = 1024"

text \<open>\<open>TextEmbeddingService._normalize\<close>.\<close>

definition normalize_embedding :: "real list \<Rightarrow> exn + real list" where
  "normalize_embedding vec =
     (let arr = map f32 vec;
          norm = np_linalg_norm arr
      in if norm = 0 then Inl (Exn ValueError ''Received zero-norm embedding'')
         else Inr (map (\<lambda>a. f32 (a / norm)) arr))"

text \<open>\<open>TextEmbeddingService._ensure_client\<close>: an absent or empty key is missing.\<close>

definition ensure_client :: "text_embedder \<Rightarrow> exn + (string \<Rightarrow> exn + real list)" where
  "ensure_client te =
     (case api_key te of
        None \<Rightarrow> Inl (Exn ValueError ''GEMINI_API_KEY or GOOGLE_API_KEY is missing'')
      | Some k \<Rightarrow>
          if k = [] then Inl (Exn ValueError ''GEMINI_API_KEY or GOOGLE_API_KEY is missing'')
          else Inr (embed_content te))"

text \<open>
  \<open>TextEmbeddingService._reshape_to_expected\<close>: pad with zeros or truncate to the
  expected dimension, then normalise again.
\<close>

definition reshape_to_expected :: "real list \<Rightarrow> exn + real list" where
  "reshape_to_expected vec =
     (let arr = map f32 vec
      in if length arr = expected_dim then normalize_embedding arr
         else if length arr < expected_dim
              then normalize_embedding (arr @ replicate (expected_dim - length arr) 0)
              else normalize_embedding (take expected_dim arr))"

text \<open>
  The four statements that \<open>embed_text\<close> and the loop of \<open>embed_texts\<close> share:
  call the model, extract the vector, normalise it, reshape it when its length is not
  the expected dimension.
\<close>

definition embed_one :: "(string \<Rightarrow> exn + real list) \<Rightarrow> string \<Rightarrow> exn + real list" where
  "embed_one model_client t =
     (case model_client t of
        Inl e \<Rightarrow> Inl e
      | Inr vector \<Rightarrow>
          (case normalize_embedding vector of
             Inl e \<Rightarrow> Inl e
           | Inr normalized \<Rightarrow>
               if length normalized \<noteq> expected_dim then reshape_to_expected normalized
               else Inr normalized))"

definition embed_text :: "text_embedder \<Rightarrow> string \<Rightarrow> exn + real list" where
  "embed_text te t =
     (if t = [] then Inl (Exn ValueError ''text must be non-empty'')
      else case ensure_client te of
             Inl e \<Rightarrow> Inl e
           | Inr model_client \<Rightarrow> embed_one model_client t)"

fun embed_each :: "(string \<Rightarrow> exn + real list) \<Rightarrow> string list \<Rightarrow> exn + real list list" where
  "embed_each model_client [] = Inr []"
| "embed_each model_client (t # ts) =
     (case embed_one model_client t of
        Inl e \<Rightarrow> Inl e
      | Inr normalized \<Rightarrow>
          (case embed_each model_client ts of
             Inl e \<Rightarrow> Inl e
           | Inr results \<Rightarrow> Inr (normalized # results)))"

definition embed_texts :: "text_embedder \<Rightarrow> string list \<Rightarrow> exn + real list list" where
  "embed_texts te texts =
     (if texts = [] then Inr []
      else case ensure_client te of
             Inl e \<Rightarrow> Inl e
           | Inr model_client \<Rightarrow> embed_each model_client texts)"

subsection \<open>ImageEmbeddingService\<close>

text \<open>
  The OpenCLIP model is a collaborator: \<open>encode_image ie b\<close> is the outcome of
  decoding and preprocessing the image bytes \<open>b\<close> and of \<open>encode_image\<close>, the feature
  row of the one image; \<open>encode_text ie ts\<close> is the outcome of the tokenizer and of
  \<open>encode_text\<close> on the batch \<open>ts\<close>, one feature row for each text.  \<open>squeeze0\<close> is
  \<open>squeeze(0)\<close>, which raises unless the batch has exactly one row.
\<close>

record image_embedder =
  encode_image :: "string \<Rightarrow> exn + real list"
  encode_text :: "string list \<Rightarrow> exn + real list list"

definition squeeze0 :: "'a list \<Rightarrow> exn + 'a" where
  "squeeze0 rows =
     (case rows of
        [row] \<Rightarrow> Inr row
      | _ \<Rightarrow> Inl (Exn ValueError
                 ''cannot select an axis to squeeze out which has size not equal to one''))"

fun embed_images :: "image_embedder \<Rightarrow> string list \<Rightarrow> exn + real list list" where
  "embed_images ie [] = Inr []"
| "embed_images ie (data # images) =
     (case encode_image ie data of
        Inl e \<Rightarrow> Inl e
      | Inr row \<Rightarrow>
          (let feats = map f32 row;
               norm = np_linalg_norm feats
           in if norm = 0 then Inl (Exn ValueError ''Received zero-norm image embedding'')
              else (case embed_images ie images of
                      Inl e \<Rightarrow> Inl e
                    | Inr embeddings \<Rightarrow> Inr (map (\<lambda>a. f32 (a / norm)) feats # embeddings))))"

definition embed_text_to_image_space :: "image_embedder \<Rightarrow> string \<Rightarrow> exn + real list" where
  "embed_text_to_image_space ie t =
     (if strip t = [] then Inl (Exn ValueError ''text must be non-empty'')
      else case encode_text ie [t] of
             Inl e \<Rightarrow> Inl e
           | Inr rows \<Rightarrow>
               (case squeeze0 rows of
                  Inl e \<Rightarrow> Inl e
                | Inr row \<Rightarrow>
                    (let feats = map f32 row;
                         norm = np_linalg_norm feats
                     in if norm = 0
                        then Inl (Exn ValueError ''Received zero-norm CLIP text embedding'')
                        else Inr (map (\<lambda>a. f32 (a / norm)) feats))))"

text \<open>
  \<open>embed_texts_to_image_space\<close>: the norms of the rows are computed, every norm equal
  to \<open>0.0\<close> is replaced by \<open>1.0\<close>, and each row is divided by its norm.
\<close>

definition embed_texts_to_image_space ::
  "image_embedder \<Rightarrow> string list \<Rightarrow> exn + real list list" where
  "embed_texts_to_image_space ie texts =
     (if texts = [] then Inr []
      else case encode_text ie texts of
             Inl e \<Rightarrow> Inl e
           | Inr rows \<Rightarrow>
               (let feats = map (map f32) rows;
                    norms = map np_linalg_norm feats;
                    norms1 = map (\<lambda>n. if n = 0 then 1 else n) norms
                in Inr (map (\<lambda>(row, n). map (\<lambda>a. f32 (f32 (a / n))) row) (zip feats norms1))))"


section \<open>The vector repository (QdrantRepository)\<close>

subsection \<open>Points, payloads and hits\<close>

text \<open>
  The payload dictionaries that \<open>build_text_payload\<close> and \<open>build_image_payload\<close> of
  \<^verbatim>\<open>schema.py\<close> build.  The creation time, which the source reads from the clock
  inside the builder, is an argument here.
\<close>

record text_payload =
  tp_id :: string
  tp_type :: string
  tp_source_pdf_id :: string
  tp_page_number :: int
  tp_section_id :: "string option"
  tp_chunk_id :: string
  tp_chunk_text_preview :: string
  tp_chunk_start_char_index :: int
  tp_chunk_end_char_index :: int
  tp_language :: "string option"
  tp_doc_title :: "string option"
  tp_tags :: "string list"
  tp_modality :: string
  tp_embedding_model_name :: string
  tp_embedding_dim :: int
  tp_created_at :: string
  tp_version :: "string option"

record image_payload =
  ip_id :: string
  ip_type :: string
  ip_source_pdf_id :: string
  ip_page_number :: int
  ip_figure_id :: "string option"
  ip_image_s3_key :: string
  ip_image_mime_type :: string
  ip_width_px :: int
  ip_height_px :: int
  ip_caption_text :: "string option"
  ip_alt_text :: "string option"
  ip_doc_title :: "string option"
  ip_tags :: "string list"
  ip_modality :: string
  ip_embedding_model_name :: string
  ip_embedding_dim :: int
  ip_created_at :: string
  ip_version :: "string option"

definition build_text_payload ::
  "string \<Rightarrow> string \<Rightarrow> int \<Rightarrow> string \<Rightarrow> string \<Rightarrow> int \<Rightarrow> int \<Rightarrow> string \<Rightarrow>
   string option \<Rightarrow> string list option \<Rightarrow> string \<Rightarrow> text_payload" where
  "build_text_payload point_id source_pdf_id page_number chunk_id chunk_text_preview
      char_start char_end embedding_model_name doc_title tags now =
     \<lparr>tp_id = point_id, tp_type = ''text'', tp_source_pdf_id = source_pdf_id,
      tp_page_number = page_number, tp_section_id = None, tp_chunk_id = chunk_id,
      tp_chunk_text_preview = chunk_text_preview,
      tp_chunk_start_char_index = char_start, tp_chunk_end_char_index = char_end,
      tp_language = None, tp_doc_title = doc_title,
      tp_tags = (case tags of None \<Rightarrow> [] | Some ts \<Rightarrow> ts),
      tp_modality = ''text'', tp_embedding_model_name = embedding_model_name,
      tp_embedding_dim = 1024, tp_created_at = now, tp_version = None\<rparr>"

definition build_image_payload ::
  "string \<Rightarrow> string \<Rightarrow> int \<Rightarrow> string \<Rightarrow> string \<Rightarrow> int \<Rightarrow> int \<Rightarrow> string \<Rightarrow>
   string option \<Rightarrow> string option \<Rightarrow> string option \<Rightarrow> string list option \<Rightarrow> string \<Rightarrow>
   image_payload" where
  "build_image_payload point_id source_pdf_id page_number image_s3_key mime_type
      width_px height_px embedding_model_name caption_text alt_text doc_title tags now =
     \<lparr>ip_id = point_id, ip_type = ''image'', ip_source_pdf_id = source_pdf_id,
      ip_page_number = page_number, ip_figure_id = None, ip_image_s3_key = image_s3_key,
      ip_image_mime_type = mime_type, ip_width_px = width_px, ip_height_px = height_px,
      ip_caption_text = caption_text, ip_alt_text = alt_text, ip_doc_title = doc_title,
      ip_tags = (case tags of None \<Rightarrow> [] | Some ts \<Rightarrow> ts),
      ip_modality = ''image'', ip_embedding_model_name = embedding_model_name,
      ip_embedding_dim = 768, ip_created_at = now, ip_version = None\<rparr>"

datatype payload = TextPayload text_payload | ImagePayload image_payload

text \<open>A point is the tuple \<open>(id, vector, payload)\<close> the upsert operations take.\<close>

type_synonym point = "string \<times> real list \<times> payload"

definition PointStruct :: "point \<Rightarrow> point" where
  "PointStruct p = (case p of (pid, vec, payload) \<Rightarrow> (pid, vec, payload))"

text \<open>
  A hit is a \<open>ScoredPoint\<close>.  The query pipeline reads its payload with
  \<open>payload.get(key)\<close> only, so the payload of a hit is the record of the keys read,
  \<open>None\<close> where the key is absent or holds \<open>None\<close>; the values have the types the
  schema gives them.
\<close>

record stored_payload =
  p_id :: "string option"
  p_chunk_text_preview :: "string option"
  p_page_number :: "int option"
  p_section_id :: "string option"
  p_embedding_model_name :: "string option"
  p_image_s3_key :: "string option"
  p_caption_text :: "string option"
  p_alt_text :: "string option"
  p_image_mime_type :: "string option"

record hit =
  hit_id :: string
  score :: real
  payload :: "stored_payload option"

subsection \<open>The client\<close>

text \<open>
  A search call is made under one of three method names and passes the vector and the
  filter under keyword names that differ between client versions.  The client is
  stateful: the outcome of a call may depend on the calls made before it, so each
  method takes the list of the earlier calls.  A method the client does not have
  (\<open>hasattr\<close> is false) is \<open>None\<close>.  Every function of the repository returns the
  list of calls extended by the calls it made, in order: a call in that list is a
  request sent to the client.
\<close>

datatype match_value = MatchStr string | MatchInt int | MatchBool bool

datatype field_condition = FieldCondition string match_value

datatype qfilter = Filter_must "field_condition list"

datatype vector_kw = Kw_query_vector | Kw_query | Kw_vector

datatype filter_kw = Kw_query_filter | Kw_filter

record search_kwargs =
  collection_name :: string
  vector_kw :: vector_kw
  vector :: "real list"
  limit :: int
  filter_kw :: filter_kw
  flt :: "qfilter option"

datatype call =
    Search search_kwargs
  | Query_points search_kwargs
  | Search_points search_kwargs
  | Upsert string "point list"

text \<open>
  The response of \<open>query_points\<close> and \<open>search_points\<close> is a list of hits or an object
  with a \<open>points\<close> attribute; \<open>points_of\<close> is \<open>getattr(resp, "points", resp)\<close>.
\<close>

datatype search_response = Hit_list "hit list" | Points_object "hit list"

fun points_of :: "search_response \<Rightarrow> hit list" where
  "points_of (Hit_list hs) = hs"
| "points_of (Points_object hs) = hs"

record qdrant_client =
  client_search :: "(call list \<Rightarrow> search_kwargs \<Rightarrow> exn + hit list) option"
  client_query_points :: "(call list \<Rightarrow> search_kwargs \<Rightarrow> exn + search_response) option"
  client_search_points :: "(call list \<Rightarrow> search_kwargs \<Rightarrow> exn + search_response) option"
  client_upsert :: "call list \<Rightarrow> string \<Rightarrow> point list \<Rightarrow> exn + unit"

record repository =
  client :: qdrant_client
  text_collection :: string
  image_collection :: string

subsection \<open>The search compatibility layer\<close>

text \<open>
  The tests on the lower-cased error text.  \<open>mentions_query_filter\<close> is the first
  condition of the handlers, \<open>mentions_filter\<close> the second.
\<close>

definition quoted :: "string \<Rightarrow> string" where
  "quoted s = apostrophe # s @ [apostrophe]"

definition mentions_query_filter :: "string \<Rightarrow> bool" where
  "mentions_query_filter msg =
     (py_in ''query_filter'' msg
      \<or> py_in (''unexpected keyword argument '' @ quoted ''query_filter'') msg
      \<or> py_in (''unknown arguments: ['' @ quoted ''query_filter'' @ '']'') msg)"

definition mentions_filter :: "string \<Rightarrow> bool" where
  "mentions_filter msg =
     (py_in (''unknown arguments: ['' @ quoted ''filter'' @ '']'') msg
      \<or> py_in (''unexpected keyword argument '' @ quoted ''filter'') msg)"

definition kwargs ::
  "string \<Rightarrow> vector_kw \<Rightarrow> real list \<Rightarrow> int \<Rightarrow> filter_kw \<Rightarrow> qfilter option \<Rightarrow> search_kwargs" where
  "kwargs c vk v k fk f =
     \<lparr>collection_name = c, vector_kw = vk, vector = v, limit = k, filter_kw = fk, flt = f\<rparr>"

text \<open>The block of \<open>_search\<close> for a client that has \<open>search\<close>.\<close>

definition search_with_search ::
  "(call list \<Rightarrow> search_kwargs \<Rightarrow> exn + hit list) \<Rightarrow> call list \<Rightarrow> string \<Rightarrow> real list \<Rightarrow> int \<Rightarrow>
   qfilter option \<Rightarrow> (exn + hit list) \<times> call list" where
  "search_with_search search h c v k f =
     (let a1 = kwargs c Kw_query_vector v k Kw_query_filter f;
          h1 = h @ [Search a1]
      in case search h a1 of
           Inr r \<Rightarrow> (Inr r, h1)
         | Inl e \<Rightarrow>
             (let msg = lower (str_exn e)
              in if mentions_query_filter msg
                 then (let a2 = kwargs c Kw_query_vector v k Kw_filter f
                       in (search h1 a2, h1 @ [Search a2]))
                 else if mentions_filter msg
                 then (search h1 a1, h1 @ [Search a1])
                 else (Inl e, h1)))"

text \<open>
  The block for \<open>query_points\<close>.  A retry that fails, whatever its exception, is
  followed by a last attempt that passes the vector as \<open>vector\<close>.
\<close>

definition search_with_query_points ::
  "(call list \<Rightarrow> search_kwargs \<Rightarrow> exn + search_response) \<Rightarrow> call list \<Rightarrow> string \<Rightarrow> real list \<Rightarrow> int \<Rightarrow>
   qfilter option \<Rightarrow> (exn + hit list) \<times> call list" where
  "search_with_query_points query_points h c v k f =
     (let a1 = kwargs c Kw_query v k Kw_query_filter f;
          h1 = h @ [Query_points a1]
      in case query_points h a1 of
           Inr resp \<Rightarrow> (Inr (points_of resp), h1)
         | Inl e \<Rightarrow>
             (let msg = lower (str_exn e)
              in if mentions_query_filter msg
                 then (let a2 = kwargs c Kw_query v k Kw_filter f;
                           h2 = h1 @ [Query_points a2]
                       in case query_points h1 a2 of
                            Inr resp \<Rightarrow> (Inr (points_of resp), h2)
                          | Inl e2 \<Rightarrow>
                              (let a3 = kwargs c Kw_vector v k Kw_filter f
                               in (map_sum id points_of (query_points h2 a3),
                                   h2 @ [Query_points a3])))
                 else if mentions_filter msg
                 then (let h2 = h1 @ [Query_points a1]
                       in case query_points h1 a1 of
                            Inr resp \<Rightarrow> (Inr (points_of resp), h2)
                          | Inl e2 \<Rightarrow>
                              (let a3 = kwargs c Kw_vector v k Kw_query_filter f
                               in (map_sum id points_of (query_points h2 a3),
                                   h2 @ [Query_points a3])))
                 else (Inl e, h1)))"

text \<open>The block for \<open>search_points\<close>.\<close>

definition search_with_search_points ::
  "(call list \<Rightarrow> search_kwargs \<Rightarrow> exn + search_response) \<Rightarrow> call list \<Rightarrow> string \<Rightarrow> real list \<Rightarrow> int \<Rightarrow>
   qfilter option \<Rightarrow> (exn + hit list) \<times> call list" where
  "search_with_search_points search_points h c v k f =
     (let a1 = kwargs c Kw_query v k Kw_query_filter f;
          h1 = h @ [Search_points a1]
      in case search_points h a1 of
           Inr resp \<Rightarrow> (Inr (points_of resp), h1)
         | Inl e \<Rightarrow>
             (let msg = lower (str_exn e)
              in if mentions_query_filter msg
                 then (let a2 = kwargs c Kw_query v k Kw_filter f
                       in (map_sum id points_of (search_points h1 a2),
                           h1 @ [Search_points a2]))
                 else if mentions_filter msg
                 then (map_sum id points_of (search_points h1 a1), h1 @ [Search_points a1])
                 else (Inl e, h1)))"

text \<open>\<open>QdrantRepository._search\<close>: the first method the client has is used.\<close>

definition repo_search ::
  "repository \<Rightarrow> call list \<Rightarrow> string \<Rightarrow> real list \<Rightarrow> int \<Rightarrow> qfilter option \<Rightarrow>
   (exn + hit list) \<times> call list" where
  "repo_search repo h c v k f =
     (case client_search (client repo) of
        Some search \<Rightarrow> search_with_search search h c v k f
      | None \<Rightarrow>
          (case client_query_points (client repo) of
             Some query_points \<Rightarrow> search_with_query_points query_points h c v k f
           | None \<Rightarrow>
               (case client_search_points (client repo) of
                  Some search_points \<Rightarrow> search_with_search_points search_points h c v k f
                | None \<Rightarrow>
                    (Inl (Exn RuntimeError
                            ''Qdrant client does not support a known search method''), h))))"

subsection \<open>Upsert and search\<close>

definition upsert_text_points ::
  "repository \<Rightarrow> call list \<Rightarrow> point list \<Rightarrow> (exn + unit) \<times> call list" where
  "upsert_text_points repo h points =
     (let qdrant_points = map PointStruct points
      in (client_upsert (client repo) h (text_collection repo) qdrant_points,
          h @ [Upsert (text_collection repo) qdrant_points]))"

definition upsert_image_points ::
  "repository \<Rightarrow> call list \<Rightarrow> point list \<Rightarrow> (exn + unit) \<times> call list" where
  "upsert_image_points repo h points =
     (let qdrant_points = map PointStruct points
      in (client_upsert (client repo) h (image_collection repo) qdrant_points,
          h @ [Upsert (image_collection repo) qdrant_points]))"

definition build_filter :: "(string \<times> match_value) list option \<Rightarrow> qfilter option" where
  "build_filter filters =
     (case filters of
        None \<Rightarrow> None
      | Some kvs \<Rightarrow>
          if kvs = [] then None
          else Some (Filter_must (map (\<lambda>(field, v). FieldCondition field v) kvs)))"

definition search_text ::
  "repository \<Rightarrow> call list \<Rightarrow> real list \<Rightarrow> int \<Rightarrow> (string \<times> match_value) list option \<Rightarrow>
   (exn + hit list) \<times> call list" where
  "search_text repo h query_vector top_k filters =
     (if query_vector = []
      then (Inl (Exn ValueError ''query_vector must be a non-empty list of floats''), h)
      else if top_k \<le> 0
      then (Inl (Exn ValueError ''top_k must be a positive integer''), h)
      else repo_search repo h (text_collection repo) query_vector top_k (build_filter filters))"

definition search_images ::
  "repository \<Rightarrow> call list \<Rightarrow> real list \<Rightarrow> int \<Rightarrow> (string \<times> match_value) list option \<Rightarrow>
   (exn + hit list) \<times> call list" where
  "search_images repo h query_vector top_k filters =
     (if query_vector = []
      then (Inl (Exn ValueError ''query_vector must be a non-empty list of floats''), h)
      else if top_k \<le> 0
      then (Inl (Exn ValueError ''top_k must be a positive integer''), h)
      else repo_search repo h (image_collection repo) query_vector top_k (build_filter filters))"

subsection \<open>Notions for the properties of the negotiation\<close>

text \<open>
  \<open>client_outcome cl h c\<close> is what the client answers to the search call \<open>c\<close> after
  the calls \<open>h\<close>, with the points taken out of a response object; it is \<open>None\<close> when
  the client lacks the method.  \<open>primary_call\<close> is the first call \<open>_search\<close> makes: the
  first method the client has, the vector passed as \<open>query_vector\<close> (for \<open>search\<close>) or
  \<open>query\<close>, the filter as \<open>query_filter\<close>.  \<open>shape_error\<close> is the recognition of a
  parameter-shape error by the handlers, \<open>alternate_call e c\<close> the retry they make after
  the error \<open>e\<close>, and \<open>vector_call c\<close> is \<open>c\<close> with the vector passed as \<open>vector\<close>.
\<close>

fun client_outcome :: "qdrant_client \<Rightarrow> call list \<Rightarrow> call \<Rightarrow> (exn + hit list) option" where
  "client_outcome cl h (Search a) = map_option (\<lambda>m. m h a) (client_search cl)"
| "client_outcome cl h (Query_points a) =
     map_option (\<lambda>m. map_sum id points_of (m h a)) (client_query_points cl)"
| "client_outcome cl h (Search_points a) =
     map_option (\<lambda>m. map_sum id points_of (m h a)) (client_search_points cl)"
| "client_outcome cl h (Upsert c ps) = None"

definition primary_call ::
  "qdrant_client \<Rightarrow> string \<Rightarrow> real list \<Rightarrow> int \<Rightarrow> qfilter option \<Rightarrow> call option" where
  "primary_call cl c v k f =
     (if client_search cl \<noteq> None then Some (Search (kwargs c Kw_query_vector v k Kw_query_filter f))
      else if client_query_points cl \<noteq> None
      then Some (Query_points (kwargs c Kw_query v k Kw_query_filter f))
      else if client_search_points cl \<noteq> None
      then Some (Search_points (kwargs c Kw_query v k Kw_query_filter f))
      else None)"

definition shape_error :: "exn \<Rightarrow> bool" where
  "shape_error e =
     (mentions_query_filter (lower (str_exn e)) \<or> mentions_filter (lower (str_exn e)))"

fun map_call :: "(search_kwargs \<Rightarrow> search_kwargs) \<Rightarrow> call \<Rightarrow> call" where
  "map_call g (Search a) = Search (g a)"
| "map_call g (Query_points a) = Query_points (g a)"
| "map_call g (Search_points a) = Search_points (g a)"
| "map_call g (Upsert c ps) = Upsert c ps"

definition alternate_call :: "exn \<Rightarrow> call \<Rightarrow> call" where
  "alternate_call e c =
     (if mentions_query_filter (lower (str_exn e))
      then map_call (\<lambda>a. a\<lparr>filter_kw := Kw_filter\<rparr>) c
      else map_call (\<lambda>a. a\<lparr>filter_kw := Kw_query_filter\<rparr>) c)"

definition vector_call :: "call \<Rightarrow> call" where
  "vector_call c = map_call (\<lambda>a. a\<lparr>vector_kw := Kw_vector\<rparr>) c"

fun is_query_points :: "call \<Rightarrow> bool" where
  "is_query_points (Query_points a) = True"
| "is_query_points c = False"

text \<open>The query vector a search call carries.\<close>

fun searched_vector :: "call \<Rightarrow> real list option" where
  "searched_vector (Search a) = Some (vector a)"
| "searched_vector (Query_points a) = Some (vector a)"
| "searched_vector (Search_points a) = Some (vector a)"
| "searched_vector (Upsert c ps) = None"


section \<open>Answer generation\<close>

text \<open>The context object that \<open>answer_question\<close> assembles and the generators read.\<close>

record score_triple =
  text_score :: real
  image_score :: real
  fused_score :: real

record text_chunk =
  tc_id :: "string option"
  tc_chunk_text_preview :: "string option"
  tc_page_number :: "int option"
  tc_section_id :: "string option"
  tc_scores :: score_triple
  tc_embedding_model_name :: "string option"
  tc_modality :: string

record image_ref =
  im_id :: "string option"
  im_presigned_url :: string
  im_ttl_seconds :: int
  im_page_number :: "int option"
  im_caption_text :: "string option"
  im_alt_text :: "string option"
  im_image_mime_type :: "string option"
  im_s3_key :: string
  im_scores :: score_triple
  im_embedding_model_name :: "string option"
  im_modality :: string

record fusion_info =
  strategy :: string
  weight_text :: real
  weight_image :: real
  normalized :: bool

record query_context =
  text_chunks :: "text_chunk list"
  images :: "image_ref list"
  fusion :: fusion_info

text \<open>
  \<open>GeminiAnswerGenerator\<close>.  The field \<open>genai\<close> is the attribute \<open>_genai\<close>: \<open>None\<close>
  when there is no API key or when importing or configuring the module failed,
  otherwise the behaviour of the model, which maps the model name and the prompt to
  the outcome of \<open>GenerativeModel(name).generate_content(prompt)\<close>: an exception, or
  the attribute \<open>text\<close> of the response, which may be \<open>None\<close>.
\<close>

record gemini_answer_generator =
  model_name :: string
  genai :: "(string \<Rightarrow> string \<Rightarrow> exn + string option) option"

text \<open>
  The generator of a pipeline: the Gemini wrapper, or the class \<open>_Fallback\<close> that
  \<open>QueryPipeline.__init__\<close> installs when the wrapper cannot be imported or built.
\<close>

datatype answer_generator = Gemini gemini_answer_generator | Fallback

definition str_page :: "int option \<Rightarrow> string" where
  "str_page page = (case page of None \<Rightarrow> ''None'' | Some n \<Rightarrow> str_int n)"

definition preview_or_empty :: "text_chunk \<Rightarrow> string" where
  "preview_or_empty t = (case tc_chunk_text_preview t of None \<Rightarrow> [] | Some p \<Rightarrow> p)"

text \<open>\<open>GeminiAnswerGenerator._build_prompt\<close>.\<close>

definition build_prompt :: "string \<Rightarrow> query_context \<Rightarrow> string" where
  "build_prompt question ctx =
     join [newline]
       ([''You are a helpful assistant. Answer ONLY using the provided context.'',
         ''If the answer isn'' @ [apostrophe] @
           ''t in the context, say you don'' @ [apostrophe] @ ''t have enough information.'',
         ''Be concise and cite page numbers when helpful.'',
         [],
         ''Question: '' @ question,
         [],
         ''Context snippets:'']
        @ concat (map (\<lambda>t. let txt = strip (preview_or_empty t)
                             in if txt \<noteq> []
                                then [''- [p'' @ str_page (tc_page_number t) @ ''] '' @ txt]
                                else [])
                      (take 6 (text_chunks ctx))))"

text \<open>
  The extractive summary, which both generators compute with the same loop: the
  stripped previews of the first three text chunks whose preview is not empty,
  joined by blank lines, or a fixed sentence when that text is empty.
\<close>

definition excerpts :: "query_context \<Rightarrow> string" where
  "excerpts ctx =
     (let snippets = concat (map (\<lambda>t. let preview = preview_or_empty t
                                       in if preview \<noteq> [] then [strip preview] else [])
                                (take 3 (text_chunks ctx)));
          body = join [newline, newline] snippets
      in if body = [] then ''No relevant context found.'' else body)"

definition gemini_fallback_answer :: "query_context \<Rightarrow> string" where
  "gemini_fallback_answer ctx =
     ''Based on the retrieved context, here are the most relevant excerpts:''
       @ [newline, newline] @ excerpts ctx"

definition no_llm_answer :: "query_context \<Rightarrow> string" where
  "no_llm_answer ctx =
     ''Answer (no LLM available). Based only on retrieved context, ''
       @ ''here are the most relevant excerpts:'' @ [newline, newline] @ excerpts ctx"

text \<open>
  \<open>generate\<close> of the two classes.  In the Gemini wrapper an exception of the model
  call is caught and an absent or blank text is skipped; both lead to the extractive
  summary.
\<close>

definition generate :: "answer_generator \<Rightarrow> string \<Rightarrow> query_context \<Rightarrow> string" where
  "generate ag question ctx =
     (case ag of
        Fallback \<Rightarrow> no_llm_answer ctx
      | Gemini g \<Rightarrow>
          (let prompt = build_prompt question ctx
           in case genai g of
                None \<Rightarrow> gemini_fallback_answer ctx
              | Some llm \<Rightarrow>
                  (case llm (model_name g) prompt of
                     Inl e \<Rightarrow> gemini_fallback_answer ctx
                   | Inr None \<Rightarrow> gemini_fallback_answer ctx
                   | Inr (Some txt) \<Rightarrow>
                       if strip txt \<noteq> [] then strip txt else gemini_fallback_answer ctx)))"

section \<open>The query pipeline\<close>

text \<open>
  The pipeline with its collaborators and configuration: the two embedding services,
  the repository, the top-k settings and the URL lifetime, the answer generator, the
  presigned-URL function, the three environment variables read for the metadata and
  the request id that \<open>uuid_like\<close> returns.
\<close>

record query_pipeline =
  text_embedder :: text_embedder
  image_embedder :: image_embedder
  qdrant_repo :: repository
  top_k_text :: int
  top_k_image :: int
  url_ttl :: int
  answer_generator :: answer_generator
  generate_presigned_url :: "string \<Rightarrow> int \<Rightarrow> exn + string"
  env_collection_text :: string
  env_collection_image :: string
  env_gemini_model_name :: string
  uuid_like :: string

record response_meta =
  meta_top_k_text :: int
  meta_top_k_image :: int
  meta_collection_text :: string
  meta_collection_image :: string
  meta_dim_text :: int
  meta_dim_image :: int
  meta_metric_text :: string
  meta_metric_image :: string
  meta_llm :: string

record response =
  request_id :: string
  question :: string
  answer_text :: string
  response_images :: "image_ref list"
  response_context :: query_context
  meta :: response_meta

text \<open>
  A ranked result is the tuple \<open>(hit, text score, image score, fused score)\<close>.
  \<open>text_ranked\<close> and \<open>image_ranked\<close> are steps 3 to 5 of \<open>answer_question\<close>: the raw
  scores are normalised, fused, zipped with the hits and sorted by fused score.
\<close>

type_synonym ranked = "hit \<times> real \<times> real \<times> real"

definition text_ranked :: "hit list \<Rightarrow> ranked list" where
  "text_ranked text_hits =
     (let text_scores = map score text_hits;
          text_norm = normalize_scores text_scores;
          text_fused_scores = map text_fused text_norm
      in sort_reverse (\<lambda>(hit, ts, iscore, fs). fs)
           (map (\<lambda>(hit, ts, fs). (hit, ts, 0, fs))
                (zip text_hits (zip text_norm text_fused_scores))))"

definition image_ranked :: "hit list \<Rightarrow> ranked list" where
  "image_ranked image_hits =
     (let image_scores = map score image_hits;
          image_norm = normalize_scores image_scores;
          image_fused_scores = map image_fused image_norm
      in sort_reverse (\<lambda>(hit, ts, iscore, fs). fs)
           (map (\<lambda>(hit, iscore, fs). (hit, 0, iscore, fs))
                (zip image_hits (zip image_norm image_fused_scores))))"

definition empty_payload :: stored_payload where
  "empty_payload =
     \<lparr>p_id = None, p_chunk_text_preview = None, p_page_number = None, p_section_id = None,
      p_embedding_model_name = None, p_image_s3_key = None, p_caption_text = None,
      p_alt_text = None, p_image_mime_type = None\<rparr>"

definition payload_or_empty :: "hit \<Rightarrow> stored_payload" where
  "payload_or_empty h = (case payload h of None \<Rightarrow> empty_payload | Some p \<Rightarrow> p)"

text \<open>
  Step 6: the loop over the ranked images.  A hit without a storage key is skipped;
  an exception of the URL generation ends the loop and propagates.
\<close>

fun images_resp :: "(string \<Rightarrow> int \<Rightarrow> exn + string) \<Rightarrow> int \<Rightarrow> ranked list \<Rightarrow> exn + image_ref list" where
  "images_resp presign ttl [] = Inr []"
| "images_resp presign ttl ((h, tscore, iscore, fscore) # rest) =
     (let pl = payload_or_empty h
      in case p_image_s3_key pl of
           None \<Rightarrow> images_resp presign ttl rest
         | Some s3_key \<Rightarrow>
             if s3_key = [] then images_resp presign ttl rest
             else (case presign s3_key ttl of
                     Inl e \<Rightarrow> Inl e
                   | Inr url \<Rightarrow>
                       (case images_resp presign ttl rest of
                          Inl e \<Rightarrow> Inl e
                        | Inr refs \<Rightarrow>
                            Inr (\<lparr>im_id = p_id pl, im_presigned_url = url,
                                  im_ttl_seconds = ttl, im_page_number = p_page_number pl,
                                  im_caption_text = p_caption_text pl,
                                  im_alt_text = p_alt_text pl,
                                  im_image_mime_type = p_image_mime_type pl,
                                  im_s3_key = s3_key,
                                  im_scores = \<lparr>text_score = py_round6 tscore,
                                               image_score = py_round6 iscore,
                                               fused_score = py_round6 fscore\<rparr>,
                                  im_embedding_model_name = p_embedding_model_name pl,
                                  im_modality = ''image''\<rparr> # refs))))"

text \<open>Step 7: the text chunks of the context.\<close>

definition text_ctx :: "ranked list \<Rightarrow> text_chunk list" where
  "text_ctx rs =
     map (\<lambda>(h, tscore, iscore, fscore).
            let pl = payload_or_empty h
            in \<lparr>tc_id = p_id pl, tc_chunk_text_preview = p_chunk_text_preview pl,
                tc_page_number = p_page_number pl, tc_section_id = p_section_id pl,
                tc_scores = \<lparr>text_score = py_round6 tscore,
                             image_score = py_round6 iscore,
                             fused_score = py_round6 fscore\<rparr>,
                tc_embedding_model_name = p_embedding_model_name pl,
                tc_modality = ''text''\<rparr>) rs"

text \<open>
  Steps 1 and 2 of \<open>answer_question\<close>: the validation of the question, the two
  embeddings and the two searches.  The result is the two hit lists.
\<close>

definition retrieve ::
  "query_pipeline \<Rightarrow> call list \<Rightarrow> string \<Rightarrow> (exn + hit list \<times> hit list) \<times> call list" where
  "retrieve qp h q =
     (if strip q = [] then (Inl (Exn ValueError ''question must be a non-empty string''), h)
      else case embed_text (text_embedder qp) q of
             Inl e \<Rightarrow> (Inl e, h)
           | Inr text_vec \<Rightarrow>
               (case embed_text_to_image_space (image_embedder qp) q of
                  Inl e \<Rightarrow> (Inl e, h)
                | Inr image_query_vec \<Rightarrow>
                    (case search_text (qdrant_repo qp) h text_vec (top_k_text qp) None of
                       (Inl e, h1) \<Rightarrow> (Inl e, h1)
                     | (Inr text_hits, h1) \<Rightarrow>
                         (case search_images (qdrant_repo qp) h1 image_query_vec
                                 (top_k_image qp) None of
                            (Inl e, h2) \<Rightarrow> (Inl e, h2)
                          | (Inr image_hits, h2) \<Rightarrow> (Inr (text_hits, image_hits), h2)))))"

text \<open>Steps 3 to 7: from the hit lists to the context object.\<close>

definition assemble_context :: "query_pipeline \<Rightarrow> hit list \<Rightarrow> hit list \<Rightarrow> exn + query_context" where
  "assemble_context qp text_hits image_hits =
     (case images_resp (generate_presigned_url qp) (url_ttl qp) (image_ranked image_hits) of
        Inl e \<Rightarrow> Inl e
      | Inr refs \<Rightarrow>
          Inr \<lparr>text_chunks = text_ctx (text_ranked text_hits), images = refs,
               fusion = \<lparr>strategy = ''weighted_sum'', weight_text = w_text,
                         weight_image = w_image, normalized = True\<rparr>\<rparr>)"

text \<open>\<open>QueryPipeline.answer_question\<close>.\<close>

definition answer_question ::
  "query_pipeline \<Rightarrow> call list \<Rightarrow> string \<Rightarrow> (exn + response) \<times> call list" where
  "answer_question qp h q =
     (case retrieve qp h q of
        (Inl e, h2) \<Rightarrow> (Inl e, h2)
      | (Inr (text_hits, image_hits), h2) \<Rightarrow>
          (case assemble_context qp text_hits image_hits of
             Inl e \<Rightarrow> (Inl e, h2)
           | Inr ctx \<Rightarrow>
               (let answer = generate (answer_generator qp) q ctx
                in (Inr \<lparr>request_id = uuid_like qp, question = q, answer_text = answer,
                         response_images = images ctx, response_context = ctx,
                         meta = \<lparr>meta_top_k_text = top_k_text qp,
                                 meta_top_k_image = top_k_image qp,
                                 meta_collection_text = env_collection_text qp,
                                 meta_collection_image = env_collection_image qp,
                                 meta_dim_text = 1024, meta_dim_image = 768,
                                 meta_metric_text = ''cosine'',
                                 meta_metric_image = ''cosine'',
                                 meta_llm = env_gemini_model_name qp\<rparr>\<rparr>, h2))))"


section \<open>The ingestion pipeline\<close>

text \<open>The blocks the PDF parser returns, with the keys the pipeline reads.\<close>

record text_block =
  tb_page_number :: int
  tb_text :: string
  tb_char_start :: int
  tb_char_end :: int

record image_block =
  ib_page_number :: int
  ib_image_bytes :: string
  ib_mime_type :: string
  ib_width_px :: int
  ib_height_px :: int

text \<open>The arguments of one call of \<open>ImageStore.upload_image\<close>.\<close>

record upload =
  up_image_bytes :: string
  up_mime_type :: string
  up_pdf_id :: string
  up_page_number :: int

text \<open>
  The pipeline and its collaborators.  The parser, the two embedding services and the
  image store are behaviours: \<open>embed_texts_of\<close> and \<open>embed_images_of\<close> are the methods
  \<open>embed_texts\<close> and \<open>embed_images\<close> of the services the pipeline holds, and
  \<open>upload_image\<close> maps the uploads requested so far and the new request to the
  storage key or to an exception.  \<open>uuid4_hex n\<close> is the \<open>n\<close>-th point id that
  \<open>uuid4().hex\<close> returns to the pipeline and \<open>now_iso n\<close> the \<open>n\<close>-th reading of the
  clock by the payload builders.
\<close>

record ingestion_pipeline =
  parse_text :: "string \<Rightarrow> exn + text_block list"
  parse_images :: "string \<Rightarrow> exn + image_block list"
  embed_texts_of :: "string list \<Rightarrow> exn + real list list"
  text_model_name :: string
  upload_image :: "upload list \<Rightarrow> upload \<Rightarrow> exn + string"
  embed_images_of :: "string list \<Rightarrow> exn + real list list"
  ingest_repo :: repository
  uuid4_hex :: "nat \<Rightarrow> string"
  now_iso :: "nat \<Rightarrow> string"

text \<open>
  The effects of an ingestion: the number of point ids and of timestamps drawn, the
  upload requests made to the image store, the calls made to the vector database
  client and the warnings logged.
\<close>

record ingest_state =
  ids_drawn :: nat
  clock_reads :: nat
  uploads :: "upload list"
  calls :: "call list"
  warnings :: "string list"

definition names_api_key :: "string \<Rightarrow> bool" where
  "names_api_key msg = (py_in ''GEMINI_API_KEY'' msg \<or> py_in ''GOOGLE_API_KEY'' msg)"

text \<open>
  The loop that builds the text points from the blocks zipped with their vectors; the
  \<open>i\<close>-th point takes the next point id and the next timestamp.
\<close>

fun build_text_points ::
  "ingestion_pipeline \<Rightarrow> string \<Rightarrow> string option \<Rightarrow> nat \<Rightarrow> nat \<Rightarrow>
   (text_block \<times> real list) list \<Rightarrow> point list" where
  "build_text_points ip pdf_id doc_title i j [] = []"
| "build_text_points ip pdf_id doc_title i j ((b, vec) # rest) =
     (let page_no = tb_page_number b;
          point_id = uuid4_hex ip i;
          chunk_id = ''p'' @ str_int page_no;
          pl = build_text_payload point_id pdf_id page_no chunk_id (take 500 (tb_text b))
                 (tb_char_start b) (tb_char_end b) (text_model_name ip) doc_title None
                 (now_iso ip j)
      in (point_id, vec, TextPayload pl) # build_text_points ip pdf_id doc_title (Suc i) (Suc j) rest)"

text \<open>
  Step 2 of \<open>ingest_pdf\<close>.  The body of the \<open>try\<close> statement either raises (the
  exception of \<open>embed_texts\<close>, or the count mismatch) or yields the text points.  The
  handler inspects the message of whatever was raised: when it names one of the two
  API key variables a warning is logged and there are no text points, otherwise the
  exception is raised again.
\<close>

definition text_try_body ::
  "ingestion_pipeline \<Rightarrow> ingest_state \<Rightarrow> string \<Rightarrow> string option \<Rightarrow> text_block list \<Rightarrow>
   exn + point list" where
  "text_try_body ip st pdf_id doc_title non_empty_text_blocks =
     (let texts = map tb_text non_empty_text_blocks
      in case embed_texts_of ip texts of
           Inl e \<Rightarrow> Inl e
         | Inr vectors \<Rightarrow>
             if length vectors \<noteq> length non_empty_text_blocks
             then Inl (Exn RuntimeError ''Mismatch between text blocks and embeddings count'')
             else Inr (build_text_points ip pdf_id doc_title (ids_drawn st) (clock_reads st)
                         (zip non_empty_text_blocks vectors)))"

definition text_stage ::
  "ingestion_pipeline \<Rightarrow> ingest_state \<Rightarrow> string \<Rightarrow> string option \<Rightarrow> text_block list \<Rightarrow>
   (exn + point list) \<times> ingest_state" where
  "text_stage ip st pdf_id doc_title text_blocks =
     (let non_empty_text_blocks = filter (\<lambda>b. strip (tb_text b) \<noteq> []) text_blocks
      in if non_empty_text_blocks = [] then (Inr [], st)
         else case text_try_body ip st pdf_id doc_title non_empty_text_blocks of
                Inr text_points \<Rightarrow>
                  (Inr text_points,
                   st\<lparr>ids_drawn := ids_drawn st + length text_points,
                      clock_reads := clock_reads st + length text_points\<rparr>)
              | Inl e \<Rightarrow>
                  (let msg = str_exn e
                   in if names_api_key msg
                      then (Inr [], st\<lparr>warnings := warnings st
                                            @ [''Skipping text embeddings: '' @ msg]\<rparr>)
                      else (Inl e, st)))"

text \<open>
  Step 3: every image is uploaded first; the loop stops at the first failing upload.
  The result is the list of storage keys.
\<close>

fun upload_all ::
  "ingestion_pipeline \<Rightarrow> string \<Rightarrow> upload list \<Rightarrow> image_block list \<Rightarrow>
   (exn + string list) \<times> upload list" where
  "upload_all ip pdf_id ups [] = (Inr [], ups)"
| "upload_all ip pdf_id ups (img # imgs) =
     (let req = \<lparr>up_image_bytes = ib_image_bytes img, up_mime_type = ib_mime_type img,
                 up_pdf_id = pdf_id, up_page_number = ib_page_number img\<rparr>
      in case upload_image ip ups req of
           Inl e \<Rightarrow> (Inl e, ups @ [req])
         | Inr s3_key \<Rightarrow>
             (case upload_all ip pdf_id (ups @ [req]) imgs of
                (Inl e, ups') \<Rightarrow> (Inl e, ups')
              | (Inr s3_keys, ups') \<Rightarrow> (Inr (s3_key # s3_keys), ups')))"

fun build_image_points ::
  "ingestion_pipeline \<Rightarrow> string \<Rightarrow> string option \<Rightarrow> nat \<Rightarrow> nat \<Rightarrow>
   (image_block \<times> real list \<times> string) list \<Rightarrow> point list" where
  "build_image_points ip pdf_id doc_title i j [] = []"
| "build_image_points ip pdf_id doc_title i j ((img, vec, s3_key) # rest) =
     (let point_id = uuid4_hex ip i;
          pl = build_image_payload point_id pdf_id (ib_page_number img) s3_key
                 (ib_mime_type img) (ib_width_px img) (ib_height_px img)
                 ''openclip-ViT-L-14-openai'' None None doc_title None (now_iso ip j)
      in (point_id, vec, ImagePayload pl)
         # build_image_points ip pdf_id doc_title (Suc i) (Suc j) rest)"

definition image_stage ::
  "ingestion_pipeline \<Rightarrow> ingest_state \<Rightarrow> string \<Rightarrow> string option \<Rightarrow> image_block list \<Rightarrow>
   (exn + point list) \<times> ingest_state" where
  "image_stage ip st pdf_id doc_title image_blocks =
     (if image_blocks = [] then (Inr [], st)
      else case upload_all ip pdf_id (uploads st) image_blocks of
             (Inl e, ups) \<Rightarrow> (Inl e, st\<lparr>uploads := ups\<rparr>)
           | (Inr s3_keys, ups) \<Rightarrow>
               (let st1 = st\<lparr>uploads := ups\<rparr>
                in case embed_images_of ip (map ib_image_bytes image_blocks) of
                     Inl e \<Rightarrow> (Inl e, st1)
                   | Inr img_vectors \<Rightarrow>
                       if length img_vectors \<noteq> length image_blocks
                       then (Inl (Exn RuntimeError
                                    ''Mismatch between image blocks and embeddings count''),
                             st1)
                       else (let image_points =
                                   build_image_points ip pdf_id doc_title (ids_drawn st1)
                                     (clock_reads st1)
                                     (zip image_blocks (zip img_vectors s3_keys))
                             in (Inr image_points,
                                 st1\<lparr>ids_drawn := ids_drawn st1 + length image_points,
                                     clock_reads := clock_reads st1 + length image_points\<rparr>))))"

text \<open>Step 4: the two batch upserts; an empty batch is not sent.\<close>

definition upsert_stage ::
  "ingestion_pipeline \<Rightarrow> ingest_state \<Rightarrow> point list \<Rightarrow> point list \<Rightarrow>
   (exn + unit) \<times> ingest_state" where
  "upsert_stage ip st text_points image_points =
     (case (if text_points \<noteq> []
            then upsert_text_points (ingest_repo ip) (calls st) text_points
            else (Inr (), calls st)) of
        (Inl e, h1) \<Rightarrow> (Inl e, st\<lparr>calls := h1\<rparr>)
      | (Inr u, h1) \<Rightarrow>
          (case (if image_points \<noteq> []
                 then upsert_image_points (ingest_repo ip) h1 image_points
                 else (Inr (), h1)) of
             (r, h2) \<Rightarrow> (r, st\<lparr>calls := h2\<rparr>)))"

text \<open>\<open>IngestionPipeline.ingest_pdf\<close>.\<close>

definition ingest_pdf ::
  "ingestion_pipeline \<Rightarrow> ingest_state \<Rightarrow> string \<Rightarrow> string \<Rightarrow> string option \<Rightarrow>
   (exn + unit) \<times> ingest_state" where
  "ingest_pdf ip st pdf_bytes pdf_id doc_title =
     (if pdf_id = [] then (Inl (Exn ValueError ''pdf_id must be a non-empty string''), st)
      else case parse_text ip pdf_bytes of
             Inl e \<Rightarrow> (Inl e, st)
           | Inr text_blocks \<Rightarrow>
               (case parse_images ip pdf_bytes of
                  Inl e \<Rightarrow> (Inl e, st)
                | Inr image_blocks \<Rightarrow>
                    (case text_stage ip st pdf_id doc_title text_blocks of
                       (Inl e, st1) \<Rightarrow> (Inl e, st1)
                     | (Inr text_points, st1) \<Rightarrow>
                         (case image_stage ip st1 pdf_id doc_title image_blocks of
                            (Inl e, st2) \<Rightarrow> (Inl e, st2)
                          | (Inr image_points, st2) \<Rightarrow>
                              upsert_stage ip st2 text_points image_points))))"


section \<open>Example collaborators\<close>

text \<open>Concrete clients, services and documents, on which the theorems are instantiated.\<close>

text \<open>
  A client that has only \<open>query_points\<close>: it rejects the keyword \<open>query_filter\<close> and
  the keyword \<open>vector\<close> with a \<open>TypeError\<close>, and the connection fails on the call that
  passes \<open>query\<close> and \<open>filter\<close>.
\<close>

definition unexpected_keyword :: "string \<Rightarrow> exn" where
  "unexpected_keyword kw =
     Exn TypeError (''query_points() got an unexpected keyword argument '' @ quoted kw)"

definition connection_refused :: exn where
  "connection_refused = Exn ConnectionError ''Connection refused''"

definition flaky_query_points :: "call list \<Rightarrow> search_kwargs \<Rightarrow> exn + search_response" where
  "flaky_query_points h a =
     (if vector_kw a = Kw_vector then Inl (unexpected_keyword ''vector'')
      else if filter_kw a = Kw_query_filter then Inl (unexpected_keyword ''query_filter'')
      else Inl connection_refused)"

definition accept_upsert :: "call list \<Rightarrow> string \<Rightarrow> point list \<Rightarrow> exn + unit" where
  "accept_upsert h c ps = Inr ()"

definition flaky_client :: qdrant_client where
  "flaky_client =
     \<lparr>client_search = None, client_query_points = Some flaky_query_points,
      client_search_points = None, client_upsert = accept_upsert\<rparr>"

definition flaky_repo :: repository where
  "flaky_repo =
     \<lparr>client = flaky_client, text_collection = ''text_chunks'', image_collection = ''images''\<rparr>"

text \<open>
  A client of an older version: it has only \<open>search\<close>, which accepts the filter under
  the name \<open>filter\<close> only and then returns two hits.
\<close>

definition two_hits :: "hit list" where
  "two_hits =
     [\<lparr>hit_id = ''a'', score = 3 / 4, payload = None\<rparr>,
      \<lparr>hit_id = ''b'', score = 1 / 2, payload = None\<rparr>]"

definition old_search :: "call list \<Rightarrow> search_kwargs \<Rightarrow> exn + hit list" where
  "old_search h a =
     (if filter_kw a = Kw_query_filter
      then Inl (Exn TypeError (''search() got an unexpected keyword argument ''
                               @ quoted ''query_filter''))
      else Inr two_hits)"

definition old_client :: qdrant_client where
  "old_client =
     \<lparr>client_search = Some old_search, client_query_points = None,
      client_search_points = None, client_upsert = accept_upsert\<rparr>"

definition old_repo :: repository where
  "old_repo =
     \<lparr>client = old_client, text_collection = ''text_chunks'', image_collection = ''images''\<rparr>"

text \<open>
  A client without any of the three search methods, and a client whose \<open>search\<close>
  fails on every call because the connection is refused.
\<close>

definition bare_repo :: repository where
  "bare_repo =
     \<lparr>client = \<lparr>client_search = None, client_query_points = None,
                 client_search_points = None, client_upsert = accept_upsert\<rparr>,
      text_collection = ''text_chunks'', image_collection = ''images''\<rparr>"

definition down_repo :: repository where
  "down_repo =
     \<lparr>client = \<lparr>client_search = Some (\<lambda>h a. Inl connection_refused),
                 client_query_points = None,
                 client_search_points = None, client_upsert = accept_upsert\<rparr>,
      text_collection = ''text_chunks'', image_collection = ''images''\<rparr>"

text \<open>
  Embedding collaborators: a text model that returns the first unit vector of
  dimension 1024, one that returns the two-dimensional vector \<open>(3, 4)\<close>, one that
  returns the zero vector, and CLIP encoders that return for each text the first unit
  vector of dimension 768 or the zero vector.
\<close>

definition unit_vector :: "nat \<Rightarrow> real list" where
  "unit_vector n = 1 # replicate (n - 1) 0"

definition unit_text_embedder :: text_embedder where
  "unit_text_embedder = \<lparr>api_key = Some ''key'', embed_content = (\<lambda>t. Inr (unit_vector 1024))\<rparr>"

definition short_text_embedder :: text_embedder where
  "short_text_embedder = \<lparr>api_key = Some ''key'', embed_content = (\<lambda>t. Inr [3, 4])\<rparr>"

definition zero_text_embedder :: text_embedder where
  "zero_text_embedder = \<lparr>api_key = Some ''key'', embed_content = (\<lambda>t. Inr (replicate 1024 0))\<rparr>"

definition keyless_text_embedder :: text_embedder where
  "keyless_text_embedder = \<lparr>api_key = None, embed_content = (\<lambda>t. Inr (unit_vector 1024))\<rparr>"

definition unit_image_embedder :: image_embedder where
  "unit_image_embedder =
     \<lparr>encode_image = (\<lambda>b. Inr (unit_vector 768)),
      encode_text = (\<lambda>ts. Inr (map (\<lambda>t. unit_vector 768) ts))\<rparr>"

definition zero_image_embedder :: image_embedder where
  "zero_image_embedder =
     \<lparr>encode_image = (\<lambda>b. Inr (replicate 768 0)),
      encode_text = (\<lambda>ts. Inr (map (\<lambda>t. replicate 768 0) ts))\<rparr>"

text \<open>A text point whose vector has three coordinates.\<close>

definition short_point :: point where
  "short_point =
     (''p1'', [1, 0, 0],
      TextPayload (build_text_payload ''p1'' ''doc'' 1 ''p1'' ''Revenue grew 12%.'' 0 17
                     ''text-embedding-004'' None None ''2024-01-01T00:00:00Z''))"

text \<open>
  A query pipeline over the old client, with the URL generation always succeeding,
  for given embedding services and a given answer generator; a Gemini generator
  whose model call raises, and one without the module.
\<close>

definition sample_pipeline ::
  "text_embedder \<Rightarrow> image_embedder \<Rightarrow> answer_generator \<Rightarrow> query_pipeline" where
  "sample_pipeline te ie ag =
     \<lparr>text_embedder = te, image_embedder = ie, qdrant_repo = old_repo,
      top_k_text = 5, top_k_image = 5, url_ttl = 900, answer_generator = ag,
      generate_presigned_url = (\<lambda>s3_key ttl. Inr (''https://bucket.example/'' @ s3_key)),
      env_collection_text = ''text_chunks'', env_collection_image = ''images'',
      env_gemini_model_name = ''gemini-model'',
      uuid_like = ''0123456789abcdef0123456789abcdef''\<rparr>"

definition failing_gemini :: answer_generator where
  "failing_gemini =
     Gemini \<lparr>model_name = ''gemini-1.5-flash'',
             genai = Some (\<lambda>name prompt. Inl (Exn RuntimeError ''quota exceeded''))\<rparr>"

definition keyless_gemini :: answer_generator where
  "keyless_gemini = Gemini \<lparr>model_name = ''gemini-1.5-flash'', genai = None\<rparr>"

text \<open>
  An ingestion pipeline over the old client for a document with one page of text and
  one image, for given embedding behaviours, and the state before an ingestion.
\<close>

definition sample_ingestion ::
  "(string list \<Rightarrow> exn + real list list) \<Rightarrow> (string list \<Rightarrow> exn + real list list) \<Rightarrow>
   ingestion_pipeline" where
  "sample_ingestion et ei =
     \<lparr>parse_text = (\<lambda>b. Inr [\<lparr>tb_page_number = 1, tb_text = ''Revenue grew 12%.'',
                                  tb_char_start = 0, tb_char_end = 17\<rparr>]),
      parse_images = (\<lambda>b. Inr [\<lparr>ib_page_number = 1, ib_image_bytes = ''PNG'',
                                    ib_mime_type = ''image/png'', ib_width_px = 64,
                                    ib_height_px = 64\<rparr>]),
      embed_texts_of = et, text_model_name = ''text-embedding-004'',
      upload_image = (\<lambda>ups req. Inr ''images/doc/page_1/0.png''),
      embed_images_of = ei, ingest_repo = old_repo,
      uuid4_hex = (\<lambda>n. ''id'' @ str_nat n),
      now_iso = (\<lambda>n. ''2024-01-01T00:00:00Z'')\<rparr>"

definition initial_state :: ingest_state where
  "initial_state = \<lparr>ids_drawn = 0, clock_reads = 0, uploads = [], calls = [], warnings = []\<rparr>"

text \<open>
  The requests the sample pipeline sends for a question when both embedding services
  return unit vectors, and the context it assembles from the two hits.
\<close>

definition sample_calls :: "call list" where
  "sample_calls =
     [Search (kwargs ''text_chunks'' Kw_query_vector (unit_vector 1024) 5 Kw_query_filter None),
      Search (kwargs ''text_chunks'' Kw_query_vector (unit_vector 1024) 5 Kw_filter None),
      Search (kwargs ''images'' Kw_query_vector (unit_vector 768) 5 Kw_query_filter None),
      Search (kwargs ''images'' Kw_query_vector (unit_vector 768) 5 Kw_filter None)]"

definition sample_context :: query_context where
  "sample_context =
     \<lparr>text_chunks = text_ctx (text_ranked two_hits), images = [],
      fusion = \<lparr>strategy = ''weighted_sum'', weight_text = w_text,
                weight_image = w_image, normalized = True\<rparr>\<rparr>"


section \<open>Properties of the rounding functions\<close>

text \<open>
  Rounding is monotone, idempotent, odd and maps only \<open>0\<close> to \<open>0\<close>; \<open>fl_round_eval\<close>
  evaluates it once the exponent is known.
\<close>


lemma pow2_nat: "pow2 (int n) = 2 ^ n"
  by (simp add: pow2_def)

lemma pow2_neg_nat: "pow2 (- int n) = 1 / 2 ^ n"
  by (cases n) (simp_all add: pow2_def nat_add_distrib)

lemma pow2_powr: "pow2 e = 2 powr (real_of_int e)"
proof (cases "0 \<le> e")
  case True
  then show ?thesis by (simp add: pow2_def powr_realpow[symmetric])
next
  case False
  then obtain n where e: "e = - int n" by (metis int_nat_eq minus_minus nle_le neg_0_le_iff_le)
  show ?thesis unfolding e pow2_neg_nat
    by (simp add: powr_minus powr_realpow field_simps)
qed

lemma pow2_pos: "0 < pow2 e"
  by (simp add: pow2_powr)

lemma pow2_add: "pow2 (a + b) = pow2 a * pow2 b"
  by (simp add: pow2_powr powr_add)

lemma pow2_mono: "a \<le> b \<Longrightarrow> pow2 a \<le> pow2 b"
  by (simp add: pow2_powr)

lemma pow2_less_iff: "pow2 a < pow2 b \<longleftrightarrow> a < b"
  by (simp add: pow2_powr)

lemma real_pow2_le: "(2::nat) ^ a \<le> n \<Longrightarrow> (2::real) ^ a \<le> real n"
  by (metis of_nat_le_iff of_nat_numeral of_nat_power)

lemma real_pow2_gt: "n < (2::nat) ^ a \<Longrightarrow> real n + 1 \<le> (2::real) ^ a"
proof -
  assume "n < (2::nat) ^ a"
  then have "n + 1 \<le> 2 ^ a" by simp
  then have "real (n + 1) \<le> real (2 ^ a)" using of_nat_le_iff by blast
  then show ?thesis by simp
qed

lemma fexp_bounds:
  assumes "x \<noteq> 0"
  shows "pow2 (fexp x) \<le> \<bar>x\<bar>" and "\<bar>x\<bar> < pow2 (fexp x + 1)"
proof -
  have "pow2 (fexp x) \<le> \<bar>x\<bar> \<and> \<bar>x\<bar> < pow2 (fexp x + 1)"
  proof (cases "1 \<le> \<bar>x\<bar>")
    case True
    define n where "n = nat \<lfloor>\<bar>x\<bar>\<rfloor>"
    define k where "k = floorlog 2 n"
    have n1: "1 \<le> n" using True by (simp add: n_def le_nat_iff le_floor_iff)
    then have b: "2 ^ (k - 1) \<le> n" "n < 2 ^ k"
      using floorlog_bounds[of n 2] by (simp_all add: k_def)
    have k1: "1 \<le> k" using b n1 by (cases k) auto
    have nx: "real n \<le> \<bar>x\<bar>" "\<bar>x\<bar> < real n + 1"
      using True by (simp_all add: n_def)
    have e: "fexp x = int (k - 1)" using True k1 by (simp add: fexp_def k_def n_def)
    have "(2::real) ^ (k - 1) \<le> real n" using b(1) by (rule real_pow2_le)
    then have l: "pow2 (fexp x) \<le> \<bar>x\<bar>" using nx unfolding e pow2_nat by linarith
    have "real n + 1 \<le> 2 ^ k" using b(2) by (rule real_pow2_gt)
    moreover have "fexp x + 1 = int k" using e k1 by simp
    ultimately have "\<bar>x\<bar> < pow2 (fexp x + 1)" using nx by (simp add: pow2_nat)
    with l show ?thesis by simp
  next
    case False
    define y where "y = 1 / \<bar>x\<bar>"
    have xpos: "0 < \<bar>x\<bar>" using assms by simp
    have y1: "1 < y" using False xpos by (simp add: y_def)
    define m where "m = nat (\<lceil>y\<rceil> - 1)"
    define k where "k = floorlog 2 m"
    have cy: "2 \<le> \<lceil>y\<rceil>" using y1 by linarith
    then have m1: "1 \<le> m" unfolding m_def by arith
    then have b: "2 ^ (k - 1) \<le> m" "m < 2 ^ k"
      using floorlog_bounds[of m 2] by (simp_all add: k_def)
    have k1: "1 \<le> k" using b m1 by (cases k) auto
    have "real m = of_int (\<lceil>y\<rceil> - 1)" using cy by (simp add: m_def)
    then have my: "real m < y" "y \<le> real m + 1" by linarith+
    have e: "fexp x = - int k" using False by (simp add: fexp_def k_def m_def y_def)
    have "real m + 1 \<le> 2 ^ k" using b(2) by (rule real_pow2_gt)
    then have "y \<le> 2 ^ k" using my by linarith
    then have "1 / 2 ^ k \<le> \<bar>x\<bar>" using xpos
      by (simp add: y_def field_simps)
    then have l: "pow2 (fexp x) \<le> \<bar>x\<bar>" by (simp add: e pow2_neg_nat)
    have "(2::real) ^ (k - 1) \<le> real m" using b(1) by (rule real_pow2_le)
    then have "2 ^ (k - 1) < y" using my by linarith
    then have "\<bar>x\<bar> < 1 / 2 ^ (k - 1)" using xpos
      by (simp add: y_def field_simps)
    moreover have "fexp x + 1 = - int (k - 1)" using e k1 by simp
    ultimately have "\<bar>x\<bar> < pow2 (fexp x + 1)" by (simp add: pow2_neg_nat)
    with l show ?thesis by simp
  qed
  then show "pow2 (fexp x) \<le> \<bar>x\<bar>" and "\<bar>x\<bar> < pow2 (fexp x + 1)" by simp_all
qed

lemma fexp_eqI:
  assumes "pow2 e \<le> \<bar>x\<bar>" and "\<bar>x\<bar> < pow2 (e + 1)"
  shows "fexp x = e"
proof -
  have nz: "x \<noteq> 0" using assms(1) pow2_pos[of e] by auto
  have "pow2 e < pow2 (fexp x + 1)" using assms(1) fexp_bounds(2)[OF nz] by simp
  then have a: "e \<le> fexp x" by (simp add: pow2_less_iff)
  have "pow2 (fexp x) < pow2 (e + 1)" using assms(2) fexp_bounds(1)[OF nz] by simp
  then have "fexp x \<le> e" by (simp add: pow2_less_iff)
  with a show ?thesis by simp
qed

lemma fexp_minus: "fexp (- x) = fexp x"
  by (simp add: fexp_def)

lemma fexp_mono: "0 < x \<Longrightarrow> x \<le> y \<Longrightarrow> fexp x \<le> fexp y"
proof -
  assume a: "0 < x" "x \<le> y"
  have "pow2 (fexp x) \<le> \<bar>x\<bar>" using fexp_bounds(1)[of x] a by simp
  moreover have "\<bar>y\<bar> < pow2 (fexp y + 1)" using fexp_bounds(2)[of y] a by simp
  ultimately have "pow2 (fexp x) < pow2 (fexp y + 1)" using a by simp
  then show ?thesis by (simp add: pow2_less_iff)
qed

lemma rne_bounds: "\<lfloor>x\<rfloor> \<le> rne x" "rne x \<le> \<lfloor>x\<rfloor> + 1"
  by (simp_all add: rne_def Let_def)

lemma rne_of_int: "rne (of_int n) = n"
  by (simp add: rne_def)

lemma rne_mono: "x \<le> y \<Longrightarrow> rne x \<le> rne y"
proof -
  assume le: "x \<le> y"
  show ?thesis
  proof (cases "\<lfloor>x\<rfloor> = \<lfloor>y\<rfloor>")
    case True
    then show ?thesis using le by (auto simp: rne_def Let_def)
  next
    case False
    then have "\<lfloor>x\<rfloor> + 1 \<le> \<lfloor>y\<rfloor>" using floor_mono[OF le] by simp
    then show ?thesis using rne_bounds(2)[of x] rne_bounds(1)[of y] by linarith
  qed
qed

lemma rne_minus: "rne (- x) = - rne x"
proof (cases "x = of_int \<lfloor>x\<rfloor>")
  case True
  then obtain n where "x = of_int n" ..
  then show ?thesis using rne_of_int[of "- n"] rne_of_int[of n] by simp
next
  case False
  then have fl: "\<lfloor>- x\<rfloor> = - \<lfloor>x\<rfloor> - 1"
    by (metis ceiling_altdef ceiling_def add_diff_cancel_right' minus_diff_eq uminus_add_conv_diff)
  show ?thesis using False
    by (auto simp: rne_def Let_def fl)
qed


lemma fl_round_eval:
  assumes "pow2 e \<le> \<bar>x\<bar>" and "\<bar>x\<bar> < pow2 (e + 1)"
  shows "fl_round p x = of_int (rne (x / pow2 (e - int p + 1))) * pow2 (e - int p + 1)"
proof -
  have "x \<noteq> 0" using assms(1) pow2_pos[of e] by auto
  then show ?thesis using fexp_eqI[OF assms] by (simp add: fl_round_def Let_def)
qed

lemma fl_round_0: "fl_round p 0 = 0"
  by (simp add: fl_round_def)

lemma fl_round_minus: "fl_round p (- x) = - fl_round p x"
  by (simp add: fl_round_def fexp_minus rne_minus Let_def)

lemma pow2_int_pow: "pow2 (int n) = of_int (2 ^ n)"
  by (simp add: pow2_nat)

lemma fl_round_pos_bounds:
  assumes "0 < x" and "1 \<le> p"
  shows "pow2 (fexp x) \<le> fl_round p x" and "fl_round p x \<le> pow2 (fexp x + 1)"
proof -
  define u where "u = pow2 (fexp x - int p + 1)"
  have upos: "0 < u" by (simp add: u_def pow2_pos)
  have nz: "x \<noteq> 0" using assms by simp
  have r: "fl_round p x = of_int (rne (x / u)) * u"
    using nz by (simp add: fl_round_def u_def Let_def)
  have lo: "pow2 (int (p - 1)) * u = pow2 (fexp x)"
    using assms(2) unfolding u_def pow2_add[symmetric] by simp
  have hi: "pow2 (int p) * u = pow2 (fexp x + 1)"
    unfolding u_def pow2_add[symmetric] by simp
  have "pow2 (int (p - 1)) * u \<le> x" using fexp_bounds(1)[OF nz] assms(1) lo by simp
  then have "of_int (2 ^ (p - 1)) \<le> x / u" using upos
    by (simp add: pow2_nat field_simps)
  then have "rne (of_int (2 ^ (p - 1))) \<le> rne (x / u)" by (rule rne_mono)
  then have "real_of_int (2 ^ (p - 1)) \<le> of_int (rne (x / u))"
    unfolding rne_of_int by linarith
  then have "pow2 (int (p - 1)) * u \<le> of_int (rne (x / u)) * u"
    using upos by (simp add: pow2_nat)
  then show "pow2 (fexp x) \<le> fl_round p x" using lo r by simp
  have "x \<le> pow2 (int p) * u" using fexp_bounds(2)[OF nz] assms(1) hi by simp
  then have "x / u \<le> of_int (2 ^ p)" using upos
    by (simp add: pow2_nat field_simps)
  then have "rne (x / u) \<le> rne (of_int (2 ^ p))" by (rule rne_mono)
  then have "of_int (rne (x / u)) \<le> real_of_int (2 ^ p)"
    unfolding rne_of_int by linarith
  then have "of_int (rne (x / u)) * u \<le> pow2 (int p) * u"
    using upos by (simp add: pow2_nat)
  then show "fl_round p x \<le> pow2 (fexp x + 1)" using hi r by simp
qed

lemma fl_round_pos: "0 < x \<Longrightarrow> 1 \<le> p \<Longrightarrow> 0 < fl_round p x"
  using fl_round_pos_bounds(1)[of x p] pow2_pos[of "fexp x"] by linarith

lemma fl_round_mono_pos:
  assumes "0 < x" and "x \<le> y" and "1 \<le> p"
  shows "fl_round p x \<le> fl_round p y"
proof (cases "fexp x = fexp y")
  case True
  define u where "u = pow2 (fexp x - int p + 1)"
  have upos: "0 < u" by (simp add: u_def pow2_pos)
  have "x / u \<le> y / u" using assms(2) upos by (simp add: divide_right_mono)
  then have "rne (x / u) \<le> rne (y / u)" by (rule rne_mono)
  then have "real_of_int (rne (x / u)) * u \<le> of_int (rne (y / u)) * u"
    using upos by simp
  then show ?thesis using assms(1,2) True by (simp add: fl_round_def u_def Let_def)
next
  case False
  then have "fexp x + 1 \<le> fexp y" using fexp_mono[OF assms(1,2)] by simp
  then have "pow2 (fexp x + 1) \<le> pow2 (fexp y)" by (rule pow2_mono)
  moreover have "fl_round p x \<le> pow2 (fexp x + 1)"
    using fl_round_pos_bounds(2)[OF assms(1,3)] .
  moreover have "pow2 (fexp y) \<le> fl_round p y"
    using fl_round_pos_bounds(1)[of y p] assms by simp
  ultimately show ?thesis by linarith
qed

lemma fl_round_mono:
  assumes "1 \<le> p" and "x \<le> y"
  shows "fl_round p x \<le> fl_round p y"
proof -
  consider "0 < x" | "y < 0" | "x \<le> 0" "0 \<le> y" by linarith
  then show ?thesis
  proof cases
    case 1
    then show ?thesis using fl_round_mono_pos assms by simp
  next
    case 2
    then have "fl_round p (- y) \<le> fl_round p (- x)"
      using fl_round_mono_pos[of "- y" "- x" p] assms by simp
    then show ?thesis by (simp add: fl_round_minus)
  next
    case 3
    have "fl_round p x \<le> 0"
    proof (cases "x = 0")
      case True then show ?thesis by (simp add: fl_round_0)
    next
      case False
      then have "0 < fl_round p (- x)" using 3 assms(1) fl_round_pos[of "- x" p] by simp
      then show ?thesis by (simp add: fl_round_minus)
    qed
    moreover have "0 \<le> fl_round p y"
    proof (cases "y = 0")
      case True then show ?thesis by (simp add: fl_round_0)
    next
      case False
      then show ?thesis using 3 assms(1) fl_round_pos[of y p] by simp
    qed
    ultimately show ?thesis by simp
  qed
qed

lemma fl_round_eq_0_iff: "1 \<le> p \<Longrightarrow> fl_round p x = 0 \<longleftrightarrow> x = 0"
proof -
  assume p: "1 \<le> p"
  have "x \<noteq> 0 \<Longrightarrow> fl_round p x \<noteq> 0"
  proof -
    assume "x \<noteq> 0"
    then consider "0 < x" | "0 < - x" by linarith
    then show ?thesis
    proof cases
      case 1 then show ?thesis using fl_round_pos[OF _ p] by force
    next
      case 2
      then have "0 < fl_round p (- x)" using fl_round_pos[OF _ p] by blast
      then show ?thesis by (simp add: fl_round_minus)
    qed
  qed
  then show ?thesis by (auto simp: fl_round_0)
qed


lemma fl_round_idem_pos:
  assumes "0 < x" and "1 \<le> p"
  shows "fl_round p (fl_round p x) = fl_round p x"
proof -
  define e where "e = fexp x"
  define u where "u = pow2 (e - int p + 1)"
  define m where "m = rne (x / u)"
  define y where "y = fl_round p x"
  have upos: "0 < u" by (simp add: u_def pow2_pos)
  have y: "y = of_int m * u"
    using assms(1) by (simp add: y_def fl_round_def u_def m_def e_def Let_def)
  have ypos: "0 < y" using fl_round_pos[OF assms] by (simp add: y_def)
  have lo: "pow2 e \<le> y" using fl_round_pos_bounds(1)[OF assms] by (simp add: y_def e_def)
  have hi: "y \<le> pow2 (e + 1)" using fl_round_pos_bounds(2)[OF assms] by (simp add: y_def e_def)
  show ?thesis
  proof (cases "y < pow2 (e + 1)")
    case True
    have "fl_round p y = of_int (rne (y / u)) * u"
      using fl_round_eval[of e y p] lo True ypos by (simp add: u_def)
    also have "y / u = of_int m" using upos by (simp add: y)
    finally show ?thesis using y by (simp add: rne_of_int y_def)
  next
    case False
    then have yeq: "y = pow2 (e + 1)" using hi by simp
    have "pow2 (e + 1) < pow2 (e + 1 + 1)" by (simp add: pow2_less_iff)
    then have r: "fl_round p y = of_int (rne (y / pow2 (e + 1 - int p + 1))) * pow2 (e + 1 - int p + 1)"
      using fl_round_eval[of "e + 1" y p] ypos by (simp add: yeq)
    have eq: "int (p - 1) + (e + 1 - int p + 1) = e + 1" using assms(2) by simp
    have "pow2 (e + 1) = pow2 (int (p - 1) + (e + 1 - int p + 1))" by (simp only: eq)
    then have "pow2 (e + 1) = pow2 (int (p - 1)) * pow2 (e + 1 - int p + 1)"
      by (simp only: pow2_add)
    then have q: "y = of_int (2 ^ (p - 1)) * pow2 (e + 1 - int p + 1)"
      by (simp add: yeq pow2_nat)
    have "y / pow2 (e + 1 - int p + 1) = of_int (2 ^ (p - 1))"
      using pow2_pos[of "e + 1 - int p + 1"] by (subst q) simp
    then have "fl_round p y = of_int (2 ^ (p - 1)) * pow2 (e + 1 - int p + 1)"
      using r by (simp only: rne_of_int)
    then show ?thesis using q by (simp add: y_def)
  qed
qed

lemma fl_round_idem: "1 \<le> p \<Longrightarrow> fl_round p (fl_round p x) = fl_round p x"
proof -
  assume p: "1 \<le> p"
  consider "0 < x" | "x = 0" | "0 < - x" by linarith
  then show ?thesis
  proof cases
    case 1 then show ?thesis using fl_round_idem_pos p by simp
  next
    case 2 then show ?thesis by (simp add: fl_round_0)
  next
    case 3
    then have "fl_round p (fl_round p (- x)) = fl_round p (- x)"
      using fl_round_idem_pos p by blast
    then show ?thesis by (simp add: fl_round_minus)
  qed
qed


lemma f32_0: "f32 0 = 0" and f64_0: "f64 0 = 0"
  by (simp_all add: f32_def f64_def fl_round_0)

lemma f32_mono: "x \<le> y \<Longrightarrow> f32 x \<le> f32 y"
  unfolding f32_def by (rule fl_round_mono) simp_all

lemma f64_mono: "x \<le> y \<Longrightarrow> f64 x \<le> f64 y"
  unfolding f64_def by (rule fl_round_mono) simp_all

lemma f32_idem: "f32 (f32 x) = f32 x"
  unfolding f32_def by (rule fl_round_idem) simp

lemma f64_idem: "f64 (f64 x) = f64 x"
  unfolding f64_def by (rule fl_round_idem) simp

lemma f32_eq_0_iff: "f32 x = 0 \<longleftrightarrow> x = 0"
  unfolding f32_def by (rule fl_round_eq_0_iff) simp

lemma f64_eq_0_iff: "f64 x = 0 \<longleftrightarrow> x = 0"
  unfolding f64_def by (rule fl_round_eq_0_iff) simp

lemma f32_minus: "f32 (- x) = - f32 x" and f64_minus: "f64 (- x) = - f64 x"
  by (simp_all add: f32_def f64_def fl_round_minus)

lemma f32_eval:
  "pow2 e \<le> \<bar>x\<bar> \<Longrightarrow> \<bar>x\<bar> < pow2 (e + 1) \<Longrightarrow>
   f32 x = of_int (rne (x / pow2 (e - 23))) * pow2 (e - 23)"
  unfolding f32_def using fl_round_eval[of e x 24] by simp

lemma f64_eval:
  "pow2 e \<le> \<bar>x\<bar> \<Longrightarrow> \<bar>x\<bar> < pow2 (e + 1) \<Longrightarrow>
   f64 x = of_int (rne (x / pow2 (e - 52))) * pow2 (e - 52)"
  unfolding f64_def using fl_round_eval[of e x 53] by simp

lemma f64_nonneg: "0 \<le> x \<Longrightarrow> 0 \<le> f64 x"
  using f64_mono[of 0 x] by (simp add: f64_0)

text \<open>
  Evaluation on numerals: with the three equations for \<open>floorlog\<close> the simplifier
  computes the exponent, and with it the rounding of a rational constant.
\<close>

lemma floorlog2_numeral: "floorlog 2 (numeral k) = floorlog 2 (numeral k div 2) + 1"
  by (subst compute_floorlog) simp

lemma floorlog2_0: "floorlog 2 0 = 0"
  by (simp add: floorlog_def)

lemma floorlog2_1: "floorlog 2 (Suc 0) = 1"
  by (subst compute_floorlog) (simp add: floorlog_def)

lemmas fl_eval = f64_def f32_def fl_round_def fexp_def pow2_def rne_def Let_def
  floorlog2_numeral floorlog2_0 floorlog2_1

section \<open>Score normalisation: the example of the specification\<close>

lemma f64_9_10: "f64 (9 / 10) = 8106479329266893 / 9007199254740992"
  by (subst f64_eval[of "-1"]) (simp_all add: pow2_def rne_def)

lemma f64_half: "f64 (1 / 2) = 1 / 2"
  by (subst f64_eval[of "-1"]) (simp_all add: pow2_def rne_def)

lemma f32_half: "f32 (1 / 2) = 1 / 2"
  by (subst f32_eval[of "-1"]) (simp_all add: pow2_def rne_def)

lemma f32_of_f64_9_10: "f32 (8106479329266893 / 9007199254740992) = 7549747 / 8388608"
  by (subst f32_eval[of "-1"]) (simp_all add: pow2_def rne_def)

lemma f64_spread: "f64 (3355443 / 8388608) = 3355443 / 8388608"
  by (subst f64_eval[of "-2"]) (simp_all add: pow2_def rne_def)

lemma f64_numerator:
  "f64 (3602879701896397 / 9007199254740992) = 3602879701896397 / 9007199254740992"
  by (subst f64_eval[of "-2"]) (simp_all add: pow2_def rne_def)

lemma f64_quotient:
  "f64 (277144592453569 / 277144575934464) = 281474993487873 / 281474976710656"
  by (subst f64_eval[of "0"]) (simp_all add: pow2_def rne_def)

lemma f64_eighth: "f64 (1 / 8) = 1 / 8"
  by (subst f64_eval[of "-3"]) (simp_all add: pow2_def rne_def)

lemma f64_epsilon_le: "f64 (1 / 10 ^ 12) \<le> 1 / 8"
proof -
  have "f64 (1 / 10 ^ 12) \<le> f64 (1 / 8)" by (rule f64_mono) simp
  then show ?thesis by (simp only: f64_eighth)
qed

text \<open>
  Claim C1.  The specification states that the raw scores \<open>[0.9, 0.5, 0.5]\<close> are
  normalised to \<open>[1.0, 0.0, 0.0]\<close> and that every normalised score lies in \<open>[0, 1]\<close>.
  On the code the first normalised score of that input is
  \<open>281474993487873 / 2\<^sup>4\<^sup>8\<close>, about \<open>1.0000000596\<close>: the maximum is taken of the
  \<open>float32\<close> array, where \<open>0.9\<close> has become \<open>7549747 / 2\<^sup>2\<^sup>3\<close>, while the numerator
  subtracts the minimum from the unrounded score.  The result differs from
  \<open>[1.0, 0.0, 0.0]\<close> and its first element is greater than \<open>1\<close>.
\<close>

theorem normalize_scores_spec_example:
  "normalize_scores [f64 (9 / 10), f64 (1 / 2), f64 (1 / 2)]
     = [281474993487873 / 281474976710656, 0, 0]
   \<and> normalize_scores [f64 (9 / 10), f64 (1 / 2), f64 (1 / 2)] \<noteq> [1, 0, 0]
   \<and> 1 < hd (normalize_scores [f64 (9 / 10), f64 (1 / 2), f64 (1 / 2)])"
proof -
  have ne: "\<not> (3355443 / 8388608 \<le> f64 (1 / 10 ^ 12))" using f64_epsilon_le by simp
  have "normalize_scores [f64 (9 / 10), f64 (1 / 2), f64 (1 / 2)]
          = [281474993487873 / 281474976710656, 0, 0]"
    using ne by (simp add: normalize_scores_def f64_9_10 f64_half f32_half f32_of_f64_9_10
        f64_spread f64_numerator f64_quotient Let_def f64_0)
  then show ?thesis by simp
qed


section \<open>Fusion and ranking\<close>

lemma w_text_nonneg: "0 \<le> w_text"
  unfolding w_text_def by (rule f64_nonneg) simp

lemma w_image_nonneg: "0 \<le> w_image"
  unfolding w_image_def by (rule f64_nonneg) simp

lemma text_fused_eq: "text_fused ts = f64 (w_text * ts)"
  by (simp add: text_fused_def f64_0 f64_idem)

lemma image_fused_eq: "image_fused iscore = f64 (w_image * iscore)"
  by (simp add: image_fused_def f64_0 f64_idem)

lemma text_fused_mono: "x \<le> y \<Longrightarrow> text_fused x \<le> text_fused y"
  unfolding text_fused_eq by (intro f64_mono mult_left_mono w_text_nonneg)

lemma image_fused_mono: "x \<le> y \<Longrightarrow> image_fused x \<le> image_fused y"
  unfolding image_fused_eq by (intro f64_mono mult_left_mono w_image_nonneg)

lemma length_normalize_scores: "length (normalize_scores scores) = length scores"
  by (simp add: normalize_scores_def Let_def)

lemma normalize_scores_monotone_map:
  "\<exists>g. (\<forall>x y. x \<le> y \<longrightarrow> g x \<le> g y) \<and> normalize_scores scores = map g scores"
proof (cases "scores = []")
  case True
  then show ?thesis by (intro exI[of _ "\<lambda>x. x"]) (simp add: normalize_scores_def)
next
  case False
  define min_v where "min_v = Min (set (map f32 scores))"
  define d where "d = f64 (Max (set (map f32 scores)) - min_v)"
  show ?thesis
  proof (cases "d \<le> f64 (1 / 10 ^ 12)")
    case True
    then have "normalize_scores scores = map (\<lambda>_. 1) scores"
      using False by (simp add: normalize_scores_def Let_def d_def min_v_def)
    then show ?thesis by (intro exI[of _ "\<lambda>_. 1"]) simp
  next
    case gt: False
    have "0 \<le> f64 (1 / 10 ^ 12)" by (rule f64_nonneg) simp
    then have dpos: "0 < d" using gt by simp
    have eq: "normalize_scores scores = map (\<lambda>s. f64 (f64 (s - min_v) / d)) scores"
      using False gt by (simp add: normalize_scores_def Let_def d_def min_v_def)
    have "\<forall>x y. x \<le> y \<longrightarrow> f64 (f64 (x - min_v) / d) \<le> f64 (f64 (y - min_v) / d)"
      using dpos by (auto intro!: f64_mono divide_right_mono)
    then show ?thesis using eq by (intro exI[of _ "\<lambda>s. f64 (f64 (s - min_v) / d)"]) simp
  qed
qed

lemma sorted_rev_map_mono:
  assumes "\<forall>x y. x \<le> y \<longrightarrow> g x \<le> (g y :: real)" and "sorted (rev (xs :: real list))"
  shows "sorted (rev (map g xs))"
proof -
  have "sorted (map g (rev xs))"
    unfolding sorted_map using assms(2) assms(1)
    by (auto intro: sorted_wrt_mono_rel[where P="(\<le>)"])
  then show ?thesis by (simp add: rev_map)
qed

lemma sort_reverse_id:
  assumes "sorted (rev (map key xs))"
  shows "sort_reverse key xs = xs"
proof -
  have "sorted (map key (rev xs))" using assms by (simp add: rev_map)
  then have "sort_key key (rev xs) = rev xs" by (rule sort_key_id_if_sorted)
  then show ?thesis by (simp add: sort_reverse_def)
qed

lemma fused_keys_text:
  "map (\<lambda>(h, ts, iscore, fs). fs)
       (map (\<lambda>(h, ts, fs). (h, ts, 0, fs)) (zip hs (zip ns (map f ns))))
   = map f (take (length hs) ns)"
proof (induction hs arbitrary: ns)
  case Nil then show ?case by simp
next
  case (Cons h hs) then show ?case by (cases ns) simp_all
qed

lemma fused_keys_image:
  "map (\<lambda>(h, ts, iscore, fs). fs)
       (map (\<lambda>(h, iscore, fs). (h, 0, iscore, fs)) (zip hs (zip ns (map f ns))))
   = map f (take (length hs) ns)"
proof (induction hs arbitrary: ns)
  case Nil then show ?case by simp
next
  case (Cons h hs) then show ?case by (cases ns) simp_all
qed

lemma fused_descending:
  assumes "sorted (rev (map score hits))" and "\<forall>x y. x \<le> y \<longrightarrow> f x \<le> (f y :: real)"
  shows "sorted (rev (map f (normalize_scores (map score hits))))"
proof -
  obtain g where g: "\<forall>x y. x \<le> y \<longrightarrow> g x \<le> g y"
      "normalize_scores (map score hits) = map g (map score hits)"
    using normalize_scores_monotone_map by blast
  have "sorted (rev (map g (map score hits)))"
    using g(1) assms(1) by (rule sorted_rev_map_mono)
  with assms(2) have "sorted (rev (map f (map g (map score hits))))"
    by (rule sorted_rev_map_mono)
  then show ?thesis by (simp only: g(2))
qed


lemma set_sort_reverse: "set (sort_reverse key xs) = set xs"
  by (simp add: sort_reverse_def)

lemma zip_fused_components:
  "(h, n, fs) \<in> set (zip hs (zip ns (map f ns))) \<Longrightarrow> fs = f n"
proof (induction hs arbitrary: ns)
  case Nil then show ?case by simp
next
  case (Cons a hs) then show ?case by (cases ns) auto
qed

lemma text_ranked_components:
  assumes "(h, ts, iscore, fs) \<in> set (text_ranked hits)"
  shows "iscore = 0" and "fs = f64 (w_text * ts)"
proof -
  let ?ns = "normalize_scores (map score hits)"
  from assms have "(h, ts, iscore, fs)
      \<in> (\<lambda>(hit, ts, fs). (hit, ts, 0, fs)) ` set (zip hits (zip ?ns (map text_fused ?ns)))"
    by (simp add: text_ranked_def Let_def set_sort_reverse)
  then have "iscore = 0 \<and> (h, ts, fs) \<in> set (zip hits (zip ?ns (map text_fused ?ns)))"
    by auto
  then show "iscore = 0" and "fs = f64 (w_text * ts)"
    using zip_fused_components[of h ts fs hits ?ns text_fused] by (simp_all add: text_fused_eq)
qed

lemma image_ranked_components:
  assumes "(h, ts, iscore, fs) \<in> set (image_ranked hits)"
  shows "ts = 0" and "fs = f64 (w_image * iscore)"
proof -
  let ?ns = "normalize_scores (map score hits)"
  from assms have "(h, ts, iscore, fs)
      \<in> (\<lambda>(hit, iscore, fs). (hit, 0, iscore, fs)) ` set (zip hits (zip ?ns (map image_fused ?ns)))"
    by (simp add: image_ranked_def Let_def set_sort_reverse)
  then have "ts = 0 \<and> (h, iscore, fs) \<in> set (zip hits (zip ?ns (map image_fused ?ns)))"
    by auto
  then show "ts = 0" and "fs = f64 (w_image * iscore)"
    using zip_fused_components[of h iscore fs hits ?ns image_fused]
    by (simp_all add: image_fused_eq)
qed

lemma w_text_value: "w_text = 5404319552844595 / 9007199254740992"
  by (simp add: w_text_def fl_eval)

lemma w_image_value: "w_image = 3602879701896397 / 9007199254740992"
  by (simp add: w_image_def fl_eval)

lemma normalize_scores_close:
  "normalize_scores [f64 (9 / 10), f64 (8999999 / 10000000)]
     = [751619277 / 536870912, - (149100649 / 536870912)]"
  by (simp add: normalize_scores_def fl_eval)

lemma text_fused_close:
  "text_fused (751619277 / 536870912) = 7566047375995699 / 9007199254740992"
  "text_fused (- (149100649 / 536870912)) = - (6003585105631641 / 36028797018963968)"
  by (simp_all add: text_fused_def w_text_value w_image_value fl_eval)

text \<open>
  Claim C2.  The fused score of a text hit is \<open>0.6\<close> times its normalised score and
  its image component is \<open>0\<close> (lemmas \<open>text_fused_eq\<close> and \<open>text_ranked_components\<close>,
  and the same for image hits), but the consequence the claim draws, that no fused
  score exceeds the weight of its modality, fails on the code, because a normalised
  score can exceed \<open>1\<close>.  For two text hits with the raw scores \<open>0.9\<close> and
  \<open>0.8999999\<close> the ranked results carry the normalised scores \<open>1.400000000372529\<close>
  and \<open>-0.27772160060703754\<close> and the fused scores \<open>0.8400000002235174\<close> and
  \<open>-0.1666329603642225\<close>; the weight of the text modality is the float \<open>0.6\<close>.  The
  scores reported in the context, rounded to six decimals, are \<open>1.4\<close> and \<open>0.84\<close>
  for the first hit.
\<close>

theorem text_fused_score_exceeds_weight:
  "text_ranked [\<lparr>hit_id = ''a'', score = f64 (9 / 10), payload = None\<rparr>,
                \<lparr>hit_id = ''b'', score = f64 (8999999 / 10000000), payload = None\<rparr>]
     = [(\<lparr>hit_id = ''a'', score = f64 (9 / 10), payload = None\<rparr>,
         751619277 / 536870912, 0, 7566047375995699 / 9007199254740992),
        (\<lparr>hit_id = ''b'', score = f64 (8999999 / 10000000), payload = None\<rparr>,
         - (149100649 / 536870912), 0, - (6003585105631641 / 36028797018963968))]
   \<and> w_text < 7566047375995699 / 9007199254740992
   \<and> map tc_scores
         (text_ctx (text_ranked
            [\<lparr>hit_id = ''a'', score = f64 (9 / 10), payload = None\<rparr>,
             \<lparr>hit_id = ''b'', score = f64 (8999999 / 10000000), payload = None\<rparr>]))
       = [\<lparr>text_score = f64 (14 / 10), image_score = 0, fused_score = f64 (84 / 100)\<rparr>,
          \<lparr>text_score = f64 (- (277722 / 10 ^ 6)), image_score = 0,
           fused_score = f64 (- (166633 / 10 ^ 6))\<rparr>]
   \<and> w_text < f64 (84 / 100)"
proof -
  let ?h1 = "\<lparr>hit_id = ''a'', score = f64 (9 / 10), payload = None\<rparr>"
  let ?h2 = "\<lparr>hit_id = ''b'', score = f64 (8999999 / 10000000), payload = None\<rparr>"
  have r: "text_ranked [?h1, ?h2]
     = [(?h1, 751619277 / 536870912, 0, 7566047375995699 / 9007199254740992),
        (?h2, - (149100649 / 536870912), 0, - (6003585105631641 / 36028797018963968))]"
    by (simp add: text_ranked_def normalize_scores_close text_fused_close sort_reverse_def)
  have w: "w_text < 7566047375995699 / 9007199254740992" by (simp add: w_text_value)
  have p: "py_round6 (751619277 / 536870912) = f64 (14 / 10)"
     "py_round6 (7566047375995699 / 9007199254740992) = f64 (84 / 100)"
     "py_round6 (- (149100649 / 536870912)) = f64 (- (277722 / 10 ^ 6))"
     "py_round6 (- (6003585105631641 / 36028797018963968)) = f64 (- (166633 / 10 ^ 6))"
     "py_round6 0 = 0"
    by (simp_all add: py_round6_def rne_def f64_0)
  have c: "map tc_scores (text_ctx (text_ranked [?h1, ?h2]))
       = [\<lparr>text_score = f64 (14 / 10), image_score = 0, fused_score = f64 (84 / 100)\<rparr>,
          \<lparr>text_score = f64 (- (277722 / 10 ^ 6)), image_score = 0,
           fused_score = f64 (- (166633 / 10 ^ 6))\<rparr>]"
    unfolding r by (simp add: text_ctx_def p Let_def)
  have w2: "w_text < f64 (84 / 100)" by (simp add: w_text_value fl_eval)
  show ?thesis using r w c w2 by simp
qed


lemma text_ranked_descending:
  assumes "sorted (rev (map score hits))"
  shows "text_ranked hits
           = map (\<lambda>(hit, ts, fs). (hit, ts, 0, fs))
               (zip hits (zip (normalize_scores (map score hits))
                              (map text_fused (normalize_scores (map score hits)))))"
proof -
  let ?ns = "normalize_scores (map score hits)"
  have len: "length ?ns = length hits" by (simp add: length_normalize_scores)
  have t: "sorted (rev (map text_fused ?ns))"
    using assms text_fused_mono by (intro fused_descending) auto
  show ?thesis
    unfolding text_ranked_def Let_def
    by (rule sort_reverse_id) (simp only: fused_keys_text len[symmetric] take_all order_refl t)
qed

lemma image_ranked_descending:
  assumes "sorted (rev (map score hits))"
  shows "image_ranked hits
           = map (\<lambda>(hit, iscore, fs). (hit, 0, iscore, fs))
               (zip hits (zip (normalize_scores (map score hits))
                              (map image_fused (normalize_scores (map score hits)))))"
proof -
  let ?ns = "normalize_scores (map score hits)"
  have len: "length ?ns = length hits" by (simp add: length_normalize_scores)
  have i: "sorted (rev (map image_fused ?ns))"
    using assms image_fused_mono by (intro fused_descending) auto
  show ?thesis
    unfolding image_ranked_def Let_def
    by (rule sort_reverse_id) (simp only: fused_keys_image len[symmetric] take_all order_refl i)
qed

text \<open>
  Claim C9.  For hits ordered by raw score descending, sorting by fused score
  descending changes nothing: the ranked list is the list of the hits, in their
  original order, each with its normalised and its fused score.  This holds for the
  text list and for the image list; the fused score is a monotone function of the raw
  score (\<open>normalize_scores_monotone_map\<close>, \<open>text_fused_mono\<close>) and the sort is stable.
\<close>

theorem resort_keeps_order:
  assumes "sorted (rev (map score hits))"
  shows "text_ranked hits
           = map (\<lambda>(hit, ts, fs). (hit, ts, 0, fs))
               (zip hits (zip (normalize_scores (map score hits))
                              (map text_fused (normalize_scores (map score hits)))))
       \<and> image_ranked hits
           = map (\<lambda>(hit, iscore, fs). (hit, 0, iscore, fs))
               (zip hits (zip (normalize_scores (map score hits))
                              (map image_fused (normalize_scores (map score hits)))))
       \<and> map fst (text_ranked hits) = hits
       \<and> map fst (image_ranked hits) = hits"
proof -
  let ?ns = "normalize_scores (map score hits)"
  have len: "length ?ns = length hits" by (simp add: length_normalize_scores)
  note a = text_ranked_descending[OF assms] and b = image_ranked_descending[OF assms]
  have "map fst (text_ranked hits) = hits"
    unfolding a using len by (simp add: comp_def case_prod_unfold map_fst_zip)
  moreover have "map fst (image_ranked hits) = hits"
    unfolding b using len by (simp add: comp_def case_prod_unfold map_fst_zip)
  ultimately show ?thesis using a b by simp
qed

theorem resort_keeps_order_witness:
  "sorted (rev (map score
      [\<lparr>hit_id = ''a'', score = 3 / 4, payload = None\<rparr>,
       \<lparr>hit_id = ''b'', score = 1 / 2, payload = None\<rparr>,
       \<lparr>hit_id = ''c'', score = 1 / 2, payload = None\<rparr>]))
   \<and> map fst (text_ranked
      [\<lparr>hit_id = ''a'', score = 3 / 4, payload = None\<rparr>,
       \<lparr>hit_id = ''b'', score = 1 / 2, payload = None\<rparr>,
       \<lparr>hit_id = ''c'', score = 1 / 2, payload = None\<rparr>])
     = [\<lparr>hit_id = ''a'', score = 3 / 4, payload = None\<rparr>,
        \<lparr>hit_id = ''b'', score = 1 / 2, payload = None\<rparr>,
        \<lparr>hit_id = ''c'', score = 1 / 2, payload = None\<rparr>]
   \<and> map fst (image_ranked
      [\<lparr>hit_id = ''a'', score = 3 / 4, payload = None\<rparr>,
       \<lparr>hit_id = ''b'', score = 1 / 2, payload = None\<rparr>,
       \<lparr>hit_id = ''c'', score = 1 / 2, payload = None\<rparr>])
     = [\<lparr>hit_id = ''a'', score = 3 / 4, payload = None\<rparr>,
        \<lparr>hit_id = ''b'', score = 1 / 2, payload = None\<rparr>,
        \<lparr>hit_id = ''c'', score = 1 / 2, payload = None\<rparr>]"
proof -
  let ?hits = "[\<lparr>hit_id = ''a'', score = 3 / 4, payload = None\<rparr>,
       \<lparr>hit_id = ''b'', score = 1 / 2, payload = None\<rparr>,
       \<lparr>hit_id = ''c'', score = 1 / 2, payload = None\<rparr>]"
  have s: "sorted (rev (map score ?hits))" by simp
  from resort_keeps_order[OF s] s show ?thesis by blast
qed

section \<open>The search compatibility negotiation\<close>

lemmas str_eval = lower_def lower_char_def quoted_def apostrophe_def
  mentions_query_filter_def mentions_filter_def

lemma primary_call_cases:
  obtains (none) "client_search cl = None" "client_query_points cl = None"
      "client_search_points cl = None" "primary_call cl c v k f = None"
  | (search) s where "client_search cl = Some s"
      "primary_call cl c v k f = Some (Search (kwargs c Kw_query_vector v k Kw_query_filter f))"
  | (query_points) m where "client_search cl = None" "client_query_points cl = Some m"
      "primary_call cl c v k f = Some (Query_points (kwargs c Kw_query v k Kw_query_filter f))"
  | (search_points) m where "client_search cl = None" "client_query_points cl = None"
      "client_search_points cl = Some m"
      "primary_call cl c v k f = Some (Search_points (kwargs c Kw_query v k Kw_query_filter f))"
  by (cases "client_search cl"; cases "client_query_points cl"; cases "client_search_points cl")
     (auto simp: primary_call_def)



lemma shape_error_keyword_query_filter: "shape_error (unexpected_keyword ''query_filter'')"
  by (simp add: shape_error_def unexpected_keyword_def str_eval)

lemma not_shape_error_connection_refused: "\<not> shape_error connection_refused"
  by (simp add: shape_error_def connection_refused_def str_eval)

lemma alternate_call_keyword_query_filter:
  "alternate_call (unexpected_keyword ''query_filter'') (Query_points (kwargs c vk v k fk f))
     = Query_points (kwargs c vk v k Kw_filter f)"
  by (simp add: alternate_call_def unexpected_keyword_def str_eval kwargs_def)




section \<open>Norms and the embedding services\<close>

text \<open>
  In the model the computed norm of a vector is zero exactly when every coordinate is
  zero.  A vector that \<open>_normalize\<close> returns is the coordinate-wise quotient by a
  non-zero norm and has a non-zero coordinate; every vector that \<open>embed_text\<close> or
  \<open>embed_texts\<close> returns has the expected dimension, and \<open>embed_texts\<close> returns one
  vector for each text.
\<close>

lemma f32_nonneg: "0 \<le> x \<Longrightarrow> 0 \<le> f32 x"
  using f32_mono[of 0 x] by (simp add: f32_0)

lemma f32_pos: "0 < x \<Longrightarrow> 0 < f32 x"
  using f32_nonneg[of x] f32_eq_0_iff[of x] by (simp add: less_le)

lemma f32_1: "f32 1 = 1"
  by (simp add: fl_eval)

lemma sum_squares_nonneg:
  "0 \<le> acc \<Longrightarrow> 0 \<le> fold (\<lambda>a acc. f32 (acc + f32 (a * a))) arr acc"
proof (induction arr arbitrary: acc)
  case Nil then show ?case by simp
next
  case (Cons a arr)
  have "0 \<le> f32 (acc + f32 (a * a))"
    using Cons.prems f32_nonneg[of "a * a"] by (intro f32_nonneg) simp
  then show ?case using Cons.IH by simp
qed

lemma sum_squares_pos:
  "0 \<le> acc \<Longrightarrow> 0 < acc \<or> (\<exists>a\<in>set arr. a \<noteq> 0) \<Longrightarrow>
   0 < fold (\<lambda>a acc. f32 (acc + f32 (a * a))) arr acc"
proof (induction arr arbitrary: acc)
  case Nil then show ?case by simp
next
  case (Cons a arr)
  have sq: "0 \<le> f32 (a * a)" by (intro f32_nonneg) simp
  show ?case
  proof (cases "0 < acc \<or> a \<noteq> 0")
    case True
    have "0 < acc + f32 (a * a)"
    proof (cases "0 < acc")
      case True then show ?thesis using sq by simp
    next
      case False
      then have "a \<noteq> 0" using \<open>0 < acc \<or> a \<noteq> 0\<close> by simp
      then have "0 < a\<^sup>2" by simp
      then have "0 < f32 (a * a)" by (intro f32_pos) (simp add: power2_eq_square)
      then show ?thesis using Cons.prems(1) by simp
    qed
    then have "0 < f32 (acc + f32 (a * a))" by (rule f32_pos)
    then show ?thesis using Cons.IH[of "f32 (acc + f32 (a * a))"] by simp
  next
    case False
    then have "\<exists>b\<in>set arr. b \<noteq> 0" using Cons.prems(2) by auto
    moreover have "0 \<le> f32 (acc + f32 (a * a))"
      using Cons.prems(1) sq by (intro f32_nonneg) simp
    ultimately show ?thesis using Cons.IH[of "f32 (acc + f32 (a * a))"] by simp
  qed
qed

lemma sum_squares_zeros:
  "\<forall>a\<in>set arr. a = 0 \<Longrightarrow> fold (\<lambda>a acc. f32 (acc + f32 (a * a))) arr acc
     = (if arr = [] then acc else f32 acc)"
proof (induction arr arbitrary: acc)
  case Nil then show ?case by simp
next
  case (Cons a arr)
  then show ?case by (simp add: f32_0 f32_idem)
qed

lemma np_linalg_norm_eq_0_iff: "np_linalg_norm arr = 0 \<longleftrightarrow> (\<forall>a\<in>set arr. a = 0)"
proof
  assume "np_linalg_norm arr = 0"
  then have z: "fold (\<lambda>a acc. f32 (acc + f32 (a * a))) arr 0 = 0"
    by (simp add: np_linalg_norm_def f32_eq_0_iff)
  show "\<forall>a\<in>set arr. a = 0"
  proof (rule ccontr)
    assume "\<not> (\<forall>a\<in>set arr. a = 0)"
    then have "0 < fold (\<lambda>a acc. f32 (acc + f32 (a * a))) arr 0"
      by (intro sum_squares_pos) auto
    then show False using z by simp
  qed
next
  assume "\<forall>a\<in>set arr. a = 0"
  then show "np_linalg_norm arr = 0"
    by (simp add: np_linalg_norm_def sum_squares_zeros f32_0)
qed

lemma np_linalg_norm_nonneg: "0 \<le> np_linalg_norm arr"
  unfolding np_linalg_norm_def by (intro f32_nonneg real_sqrt_ge_zero sum_squares_nonneg) simp


lemma normalize_embedding_zero:
  "\<forall>a\<in>set vec. a = 0 \<Longrightarrow>
   normalize_embedding vec = Inl (Exn ValueError ''Received zero-norm embedding'')"
  by (simp add: normalize_embedding_def Let_def np_linalg_norm_eq_0_iff f32_eq_0_iff)

lemma normalize_embedding_Inr:
  assumes "normalize_embedding vec = Inr v"
  shows "np_linalg_norm (map f32 vec) \<noteq> 0"
    and "v = map (\<lambda>a. f32 (a / np_linalg_norm (map f32 vec))) (map f32 vec)"
    and "length v = length vec"
    and "\<exists>x\<in>set v. x \<noteq> 0"
proof -
  let ?n = "np_linalg_norm (map f32 vec)"
  show n: "?n \<noteq> 0" using assms by (auto simp: normalize_embedding_def Let_def split: if_splits)
  show v: "v = map (\<lambda>a. f32 (a / ?n)) (map f32 vec)"
    using assms by (auto simp: normalize_embedding_def Let_def split: if_splits)
  then show "length v = length vec" by simp
  define arr where "arr = map f32 vec"
  define g where "g = (\<lambda>a. f32 (a / ?n))"
  from n obtain a where a: "a \<in> set arr" "a \<noteq> 0"
    using np_linalg_norm_eq_0_iff unfolding arr_def by blast
  then have "g a \<noteq> 0" using n by (simp add: g_def f32_eq_0_iff)
  moreover have "v = map g arr" using v by (simp only: g_def arr_def)
  then have "g a \<in> set v" using a(1) by simp
  ultimately show "\<exists>x\<in>set v. x \<noteq> 0" by blast
qed

lemma normalize_embedding_nonzero:
  "\<exists>a\<in>set vec. a \<noteq> 0 \<Longrightarrow> \<exists>v. normalize_embedding vec = Inr v"
  by (auto simp: normalize_embedding_def Let_def np_linalg_norm_eq_0_iff f32_eq_0_iff)

lemma reshape_to_expected_Inr:
  assumes "reshape_to_expected vec = Inr v"
  shows "length v = expected_dim" and "\<exists>x\<in>set v. x \<noteq> 0"
    and "\<exists>w. normalize_embedding w = Inr v"
proof -
  from assms obtain w where w: "normalize_embedding w = Inr v" "length w = expected_dim"
    by (auto simp: reshape_to_expected_def Let_def split: if_splits)
  then show "length v = expected_dim" using normalize_embedding_Inr(3)[OF w(1)] by simp
  show "\<exists>x\<in>set v. x \<noteq> 0" using normalize_embedding_Inr(4)[OF w(1)] .
  show "\<exists>w. normalize_embedding w = Inr v" using w(1) by blast
qed

lemma embed_one_Inr:
  assumes "embed_one model_client t = Inr v"
  shows "length v = expected_dim" and "\<exists>x\<in>set v. x \<noteq> 0"
    and "\<exists>w. normalize_embedding w = Inr v"
proof -
  from assms obtain raw normalized where r: "model_client t = Inr raw"
      "normalize_embedding raw = Inr normalized"
      "if length normalized \<noteq> expected_dim then reshape_to_expected normalized = Inr v
       else normalized = v"
    by (auto simp: embed_one_def split: sum.splits if_splits)
  show "length v = expected_dim"
    using r(3) reshape_to_expected_Inr(1)[of normalized v] by (auto split: if_splits)
  show "\<exists>x\<in>set v. x \<noteq> 0"
    using r(2,3) reshape_to_expected_Inr(2)[of normalized v] normalize_embedding_Inr(4)[of raw]
    by (auto split: if_splits)
  show "\<exists>w. normalize_embedding w = Inr v"
    using r(2,3) reshape_to_expected_Inr(3)[of normalized v] by (auto split: if_splits)
qed

lemma embed_one_zero:
  assumes "model_client t = Inr raw" and "\<forall>a\<in>set raw. a = 0"
  shows "embed_one model_client t = Inl (Exn ValueError ''Received zero-norm embedding'')"
  using assms by (simp add: embed_one_def normalize_embedding_zero)

lemma embed_each_Inr:
  "embed_each model_client ts = Inr vs \<Longrightarrow>
   length vs = length ts \<and> (\<forall>v\<in>set vs. length v = expected_dim)"
proof (induction ts arbitrary: vs)
  case Nil then show ?case by simp
next
  case (Cons t ts)
  then show ?case using embed_one_Inr(1)[of model_client t]
    by (auto split: sum.splits)
qed

lemma embed_text_Inr:
  assumes "embed_text te t = Inr v"
  shows "length v = expected_dim" and "\<exists>x\<in>set v. x \<noteq> 0"
    and "\<exists>w. normalize_embedding w = Inr v"
  using assms embed_one_Inr[of _ t v]
  by (auto simp: embed_text_def split: if_splits sum.splits)

lemma embed_texts_Inr:
  assumes "embed_texts te texts = Inr vs"
  shows "length vs = length texts" and "\<forall>v\<in>set vs. length v = expected_dim"
  using assms embed_each_Inr[of _ texts vs]
  by (auto simp: embed_texts_def split: if_splits sum.splits)


lemma normalize_embedding_unit_vector:
  "0 < n \<Longrightarrow> normalize_embedding (unit_vector n) = Inr (unit_vector n)"
proof -
  assume "0 < n"
  have m: "map f32 (unit_vector n) = unit_vector n"
    by (simp add: unit_vector_def f32_1 f32_0)
  have "fold (\<lambda>a acc. f32 (acc + f32 (a * a))) (unit_vector n) 0
          = fold (\<lambda>a acc. f32 (acc + f32 (a * a))) (replicate (n - 1) 0) 1"
    by (simp add: unit_vector_def f32_1 del: fold_replicate)
  also have "\<dots> = (if replicate (n - 1) (0::real) = [] then 1 else f32 1)"
    by (rule sum_squares_zeros) simp
  finally have "fold (\<lambda>a acc. f32 (acc + f32 (a * a))) (unit_vector n) 0 = 1"
    by (simp add: f32_1)
  then have nrm: "np_linalg_norm (unit_vector n) = 1"
    by (simp add: np_linalg_norm_def f32_1)
  show ?thesis
    by (simp add: normalize_embedding_def m nrm)
qed

lemma length_unit_vector: "0 < n \<Longrightarrow> length (unit_vector n) = n"
  by (simp add: unit_vector_def)

lemma embed_text_unit: "t \<noteq> [] \<Longrightarrow> embed_text unit_text_embedder t = Inr (unit_vector 1024)"
  by (simp add: embed_text_def ensure_client_def unit_text_embedder_def embed_one_def
      normalize_embedding_unit_vector expected_dim_def length_unit_vector)

lemma embed_texts_unit: "embed_texts unit_text_embedder [''x''] = Inr [unit_vector 1024]"
  by (simp add: embed_texts_def ensure_client_def unit_text_embedder_def embed_one_def
      normalize_embedding_unit_vector expected_dim_def length_unit_vector)

lemma embed_one_padded:
  assumes "model_client t = Inr raw" and "length raw < expected_dim" and "\<exists>a\<in>set raw. a \<noteq> 0"
  shows "\<exists>v. embed_one model_client t = Inr v \<and> length v = expected_dim
            \<and> drop (length raw) v = replicate (expected_dim - length raw) 0"
proof -
  obtain nz where nz: "normalize_embedding raw = Inr nz"
    using normalize_embedding_nonzero[OF assms(3)] by blast
  note nzp = normalize_embedding_Inr[OF nz]
  define arr where "arr = map f32 nz"
  define k where "k = expected_dim - length raw"
  have len: "length arr = length raw" using nzp(3) by (simp add: arr_def)
  obtain x where x: "x \<in> set nz" "x \<noteq> 0" using nzp(4) by blast
  then have "f32 x \<in> set (arr @ replicate k 0)" "f32 x \<noteq> 0"
    by (simp_all add: arr_def f32_eq_0_iff)
  then have "\<exists>a\<in>set (arr @ replicate k 0). a \<noteq> 0" by blast
  then obtain v where v: "normalize_embedding (arr @ replicate k 0) = Inr v"
    using normalize_embedding_nonzero by blast
  note vp = normalize_embedding_Inr[OF v]
  have r: "reshape_to_expected nz = Inr v"
    using assms(2) len v by (simp add: reshape_to_expected_def arr_def[symmetric] k_def Let_def)
  have e: "embed_one model_client t = Inr v"
    using assms(1,2) nz nzp(3) r by (simp add: embed_one_def)
  have l: "length v = expected_dim" using vp(3) len assms(2) by (simp add: k_def)
  have "drop (length raw) v = replicate k 0"
    by (subst vp(2)) (simp add: len[symmetric] drop_map f32_0)
  then show ?thesis using e l by (simp add: k_def)
qed



section \<open>Upsert and the vector dimension\<close>





section \<open>Degenerate query embeddings\<close>

lemma embed_text_to_image_space_Inr:
  assumes "embed_text_to_image_space ie q = Inr v"
  shows "\<exists>w. np_linalg_norm (map f32 w) \<noteq> 0
             \<and> v = map (\<lambda>a. f32 (a / np_linalg_norm (map f32 w))) (map f32 w)"
    and "\<exists>x\<in>set v. x \<noteq> 0"
proof -
  from assms obtain rows row where r: "encode_text ie [q] = Inr rows" "squeeze0 rows = Inr row"
      "np_linalg_norm (map f32 row) \<noteq> 0"
      "v = map (\<lambda>a. f32 (a / np_linalg_norm (map f32 row))) (map f32 row)"
    by (auto simp: embed_text_to_image_space_def Let_def split: if_splits sum.splits)
  then show "\<exists>w. np_linalg_norm (map f32 w) \<noteq> 0
             \<and> v = map (\<lambda>a. f32 (a / np_linalg_norm (map f32 w))) (map f32 w)" by blast
  have "normalize_embedding row = Inr v"
    using r(3,4) by (simp add: normalize_embedding_def Let_def)
  then show "\<exists>x\<in>set v. x \<noteq> 0" by (rule normalize_embedding_Inr(4))
qed

lemma embed_text_to_image_space_zero:
  assumes "strip q \<noteq> []" and "encode_text ie [q] = Inr [row]" and "\<forall>a\<in>set row. a = 0"
  shows "embed_text_to_image_space ie q
           = Inl (Exn ValueError ''Received zero-norm CLIP text embedding'')"
  using assms
  by (simp add: embed_text_to_image_space_def squeeze0_def Let_def np_linalg_norm_eq_0_iff
      f32_eq_0_iff)

lemma embed_text_zero:
  assumes "q \<noteq> []" and "ensure_client te = Inr mc" and "mc q = Inr raw"
    and "\<forall>a\<in>set raw. a = 0"
  shows "embed_text te q = Inl (Exn ValueError ''Received zero-norm embedding'')"
  using assms by (simp add: embed_text_def embed_one_zero)

lemma repo_search_trace:
  "\<exists>cs. snd (repo_search repo h c v k f) = h @ cs \<and> (\<forall>x\<in>set cs. searched_vector x = Some v)"
  by (auto simp: repo_search_def search_with_search_def search_with_query_points_def
      search_with_search_points_def Let_def kwargs_def split: option.splits sum.splits)

lemma search_text_trace:
  "\<exists>cs. snd (search_text repo h v k f) = h @ cs \<and> (\<forall>x\<in>set cs. searched_vector x = Some v)"
  using repo_search_trace[of repo h "text_collection repo" v k "build_filter f"]
  by (auto simp: search_text_def)

lemma search_images_trace:
  "\<exists>cs. snd (search_images repo h v k f) = h @ cs \<and> (\<forall>x\<in>set cs. searched_vector x = Some v)"
  using repo_search_trace[of repo h "image_collection repo" v k "build_filter f"]
  by (auto simp: search_images_def)

lemma retrieve_trace:
  "\<exists>cs. snd (retrieve qp h q) = h @ cs
        \<and> (\<forall>x\<in>set cs. \<exists>u. searched_vector x = Some u \<and> (\<exists>a\<in>set u. a \<noteq> 0))"
proof (cases "strip q = []")
  case True then show ?thesis by (simp add: retrieve_def)
next
  case nb: False
  show ?thesis
  proof (cases "embed_text (text_embedder qp) q")
    case (Inl e) then show ?thesis using nb by (simp add: retrieve_def)
  next
    case tv: (Inr text_vec)
    show ?thesis
    proof (cases "embed_text_to_image_space (image_embedder qp) q")
      case (Inl e) then show ?thesis using nb tv by (simp add: retrieve_def)
    next
      case iv: (Inr image_query_vec)
      have tnz: "\<exists>a\<in>set text_vec. a \<noteq> 0" using embed_text_Inr(2)[OF tv] .
      have inz: "\<exists>a\<in>set image_query_vec. a \<noteq> 0"
        using embed_text_to_image_space_Inr(2)[OF iv] .
      obtain r1 h1 where s1: "search_text (qdrant_repo qp) h text_vec (top_k_text qp) None = (r1, h1)"
        by (cases "search_text (qdrant_repo qp) h text_vec (top_k_text qp) None")
      obtain cs1 where c1: "h1 = h @ cs1" "\<forall>x\<in>set cs1. searched_vector x = Some text_vec"
        using search_text_trace[of "qdrant_repo qp" h text_vec "top_k_text qp" None] s1 by auto
      show ?thesis
      proof (cases r1)
        case (Inl e)
        then show ?thesis using nb tv iv s1 c1 tnz by (auto simp: retrieve_def)
      next
        case th: (Inr text_hits)
        obtain r2 h2 where s2:
          "search_images (qdrant_repo qp) h1 image_query_vec (top_k_image qp) None = (r2, h2)"
          by (cases "search_images (qdrant_repo qp) h1 image_query_vec (top_k_image qp) None")
        obtain cs2 where c2: "h2 = h1 @ cs2"
            "\<forall>x\<in>set cs2. searched_vector x = Some image_query_vec"
          using search_images_trace[of "qdrant_repo qp" h1 image_query_vec "top_k_image qp" None]
            s2 by auto
        have "snd (retrieve qp h q) = h2"
          using nb tv iv s1 th s2 by (cases r2) (simp_all add: retrieve_def)
        moreover have "h2 = h @ (cs1 @ cs2)" using c1(1) c2(1) by simp
        moreover have "\<forall>x\<in>set (cs1 @ cs2). \<exists>u. searched_vector x = Some u \<and> (\<exists>a\<in>set u. a \<noteq> 0)"
          using c1(2) c2(2) tnz inz by auto
        ultimately show ?thesis by blast
      qed
    qed
  qed
qed

lemma answer_question_trace: "snd (answer_question qp h q) = snd (retrieve qp h q)"
  by (auto simp: answer_question_def Let_def split: prod.splits sum.splits)

lemma answer_question_embed_failure:
  "strip q \<noteq> [] \<Longrightarrow> embed_text (text_embedder qp) q = Inl e \<Longrightarrow>
   answer_question qp h q = (Inl e, h)"
  "strip q \<noteq> [] \<Longrightarrow> embed_text (text_embedder qp) q = Inr tv \<Longrightarrow>
   embed_text_to_image_space (image_embedder qp) q = Inl e \<Longrightarrow>
   answer_question qp h q = (Inl e, h)"
  by (simp_all add: answer_question_def retrieve_def)



lemma map_f32_unit_vector: "map f32 (unit_vector n) = unit_vector n"
  by (simp add: unit_vector_def f32_1 f32_0)

lemma np_linalg_norm_unit_vector: "np_linalg_norm (unit_vector n) = 1"
proof -
  have "fold (\<lambda>a acc. f32 (acc + f32 (a * a))) (unit_vector n) 0
          = fold (\<lambda>a acc. f32 (acc + f32 (a * a))) (replicate (n - 1) 0) 1"
    by (simp add: unit_vector_def f32_1 del: fold_replicate)
  also have "\<dots> = (if replicate (n - 1) (0::real) = [] then 1 else f32 1)"
    by (rule sum_squares_zeros) simp
  finally show ?thesis by (simp add: np_linalg_norm_def f32_1)
qed

lemma strip_q: "strip ''q'' = ''q''"
  by (simp add: strip_def is_space_def)

lemma embed_image_space_unit:
  "embed_text_to_image_space unit_image_embedder ''q'' = Inr (unit_vector 768)"
  by (simp add: embed_text_to_image_space_def strip_q unit_image_embedder_def squeeze0_def
      map_f32_unit_vector np_linalg_norm_unit_vector)

lemma embed_text_zero_embedder:
  "ensure_client zero_text_embedder = Inr (embed_content zero_text_embedder)"
  "embed_content zero_text_embedder ''q'' = Inr (replicate 1024 0)"
  by (simp_all add: ensure_client_def zero_text_embedder_def)

lemma search_text_old:
  "v \<noteq> [] \<Longrightarrow> search_text old_repo h v 5 None
     = (Inr two_hits,
        h @ [Search (kwargs ''text_chunks'' Kw_query_vector v 5 Kw_query_filter None),
             Search (kwargs ''text_chunks'' Kw_query_vector v 5 Kw_filter None)])"
  by (simp add: search_text_def repo_search_def old_repo_def old_client_def
      search_with_search_def old_search_def kwargs_def build_filter_def Let_def str_eval)

lemma search_images_old:
  "v \<noteq> [] \<Longrightarrow> search_images old_repo h v 5 None
     = (Inr two_hits,
        h @ [Search (kwargs ''images'' Kw_query_vector v 5 Kw_query_filter None),
             Search (kwargs ''images'' Kw_query_vector v 5 Kw_filter None)])"
  by (simp add: search_images_def repo_search_def old_repo_def old_client_def
      search_with_search_def old_search_def kwargs_def build_filter_def Let_def str_eval)

lemma unit_vector_nonempty: "unit_vector n \<noteq> []"
  by (simp add: unit_vector_def)

lemma retrieve_sample:
  "retrieve (sample_pipeline unit_text_embedder unit_image_embedder ag) [] ''q''
     = (Inr (two_hits, two_hits), sample_calls)"
  by (simp add: retrieve_def sample_pipeline_def strip_q embed_text_unit embed_image_space_unit
      search_text_old search_images_old unit_vector_nonempty sample_calls_def)


section \<open>The batch embedding of texts into the image space\<close>

lemma embed_texts_to_image_space_rows:
  assumes "texts \<noteq> []" and "encode_text ie texts = Inr rows"
  shows "embed_texts_to_image_space ie texts
           = Inr (map (\<lambda>row. if np_linalg_norm (map f32 row) = 0 then map f32 row
                              else map (\<lambda>a. f32 (a / np_linalg_norm (map f32 row))) (map f32 row))
                      rows)"
proof -
  have aux: "map (\<lambda>(row, n). map (\<lambda>a. f32 (f32 (a / n))) row)
            (zip (map (map f32) rs) (map (\<lambda>n. if n = 0 then 1 else n)
                                         (map np_linalg_norm (map (map f32) rs))))
        = map (\<lambda>row. if np_linalg_norm (map f32 row) = 0 then map f32 row
                      else map (\<lambda>a. f32 (a / np_linalg_norm (map f32 row))) (map f32 row)) rs"
    for rs
    by (induction rs) (simp_all add: f32_idem)
  show ?thesis
    unfolding embed_texts_to_image_space_def Let_def
    using assms(1) by (simp only: assms(2) if_False sum.case aux)
qed

text \<open>
  Claim C10.  For a non-empty list of texts, whenever the encoder returns its rows
  \<open>embed_texts_to_image_space\<close> returns one vector for each row and raises nothing: a
  row whose computed norm is zero is returned as it is, a row whose coordinates are all
  zero in particular, and any other row divided by its norm.  The single-text operation
  \<open>embed_text_to_image_space\<close> raises on a zero row.
\<close>

theorem batch_embedding_keeps_zero_rows:
  "(texts \<noteq> [] \<and> encode_text ie texts = Inr rows \<longrightarrow>
      (\<exists>out. embed_texts_to_image_space ie texts = Inr out \<and> length out = length rows
         \<and> (\<forall>i<length rows.
               out ! i = (if np_linalg_norm (map f32 (rows ! i)) = 0 then map f32 (rows ! i)
                          else map (\<lambda>a. f32 (a / np_linalg_norm (map f32 (rows ! i))))
                                   (map f32 (rows ! i))))
         \<and> (\<forall>i<length rows. (\<forall>a\<in>set (rows ! i). a = 0) \<longrightarrow> out ! i = rows ! i)))
   \<and> (strip t \<noteq> [] \<and> encode_text ie [t] = Inr [row] \<and> (\<forall>a\<in>set row. a = 0) \<longrightarrow>
        embed_text_to_image_space ie t
          = Inl (Exn ValueError ''Received zero-norm CLIP text embedding''))"
proof -
  have z: "(\<forall>a\<in>set r. a = 0) \<Longrightarrow> np_linalg_norm (map f32 r) = 0 \<and> map f32 r = r" for r
    by (auto simp: np_linalg_norm_eq_0_iff f32_eq_0_iff f32_0 intro!: map_idI)
  let ?F = "\<lambda>row. if np_linalg_norm (map f32 row) = 0 then map f32 row
                  else map (\<lambda>a. f32 (a / np_linalg_norm (map f32 row))) (map f32 row)"
  have "texts \<noteq> [] \<and> encode_text ie texts = Inr rows \<longrightarrow>
      (\<exists>out. embed_texts_to_image_space ie texts = Inr out \<and> length out = length rows
         \<and> (\<forall>i<length rows. out ! i = ?F (rows ! i))
         \<and> (\<forall>i<length rows. (\<forall>a\<in>set (rows ! i). a = 0) \<longrightarrow> out ! i = rows ! i))"
  proof
    assume a: "texts \<noteq> [] \<and> encode_text ie texts = Inr rows"
    define out where "out = map ?F rows"
    have e: "embed_texts_to_image_space ie texts = Inr out"
      using embed_texts_to_image_space_rows[of texts ie rows] a by (simp add: out_def)
    have l: "length out = length rows" by (simp add: out_def)
    have n: "\<forall>i<length rows. out ! i = ?F (rows ! i)" by (simp add: out_def)
    have zr: "\<forall>i<length rows. (\<forall>a\<in>set (rows ! i). a = 0) \<longrightarrow> out ! i = rows ! i"
    proof (intro allI impI)
      fix i assume i: "i < length rows" and "\<forall>a\<in>set (rows ! i). a = 0"
      then have "np_linalg_norm (map f32 (rows ! i)) = 0 \<and> map f32 (rows ! i) = rows ! i"
        by (intro z)
      then have a: "np_linalg_norm (map f32 (rows ! i)) = 0"
        and b: "map f32 (rows ! i) = rows ! i" by blast+
      have "out ! i = ?F (rows ! i)" using n i by blast
      also have "\<dots> = map f32 (rows ! i)" using a by simp
      finally show "out ! i = rows ! i" by (simp only: b)
    qed
    show "\<exists>out. embed_texts_to_image_space ie texts = Inr out \<and> length out = length rows
         \<and> (\<forall>i<length rows. out ! i = ?F (rows ! i))
         \<and> (\<forall>i<length rows. (\<forall>a\<in>set (rows ! i). a = 0) \<longrightarrow> out ! i = rows ! i)"
      using e l n zr by blast
  qed
  then show ?thesis using embed_text_to_image_space_zero[of t ie row] by blast
qed

theorem batch_embedding_keeps_zero_rows_witness:
  "encode_text zero_image_embedder [''a'', ''b''] = Inr [replicate 768 0, replicate 768 0]
   \<and> (\<exists>out. embed_texts_to_image_space zero_image_embedder [''a'', ''b''] = Inr out
          \<and> length out = 2 \<and> out ! 0 = replicate 768 0 \<and> out ! 1 = replicate 768 0)
   \<and> encode_text zero_image_embedder [''q''] = Inr [replicate 768 0]
   \<and> embed_text_to_image_space zero_image_embedder ''q''
       = Inl (Exn ValueError ''Received zero-norm CLIP text embedding'')"
proof -
  have r: "encode_text zero_image_embedder [''a'', ''b''] = Inr [replicate 768 0, replicate 768 0]"
    by (simp add: zero_image_embedder_def)
  have zi: "encode_text zero_image_embedder [''q''] = Inr [replicate 768 0]"
    by (simp add: zero_image_embedder_def)
  note T = batch_embedding_keeps_zero_rows[where texts="[''a'', ''b'']" and ie=zero_image_embedder
      and rows="[replicate 768 0, replicate 768 0]" and t="''q''" and row="replicate 768 0"]
  from T r obtain out where o: "embed_texts_to_image_space zero_image_embedder [''a'', ''b''] = Inr out"
      "length out = 2"
      "\<forall>i<2. (\<forall>a\<in>set ([replicate 768 0, replicate 768 (0::real)] ! i). a = 0)
              \<longrightarrow> out ! i = [replicate 768 0, replicate 768 0] ! i"
    by auto
  have "out ! 0 = replicate 768 0" using o(3)[rule_format, of 0] by simp
  moreover have "out ! 1 = replicate 768 0" using o(3)[rule_format, of 1] by simp
  moreover have "embed_text_to_image_space zero_image_embedder ''q''
       = Inl (Exn ValueError ''Received zero-norm CLIP text embedding'')"
    using T zi strip_q by simp
  ultimately show ?thesis using r zi o(1,2) by blast
qed


section \<open>Answer generation never raises\<close>

lemma generate_fallback_cases:
  "generate Fallback q ctx = no_llm_answer ctx"
  "genai g = None \<Longrightarrow> generate (Gemini g) q ctx = gemini_fallback_answer ctx"
  "genai g = Some llm \<Longrightarrow> llm (model_name g) (build_prompt q ctx) = Inl e \<Longrightarrow>
     generate (Gemini g) q ctx = gemini_fallback_answer ctx"
  "genai g = Some llm \<Longrightarrow> llm (model_name g) (build_prompt q ctx) = Inr None \<Longrightarrow>
     generate (Gemini g) q ctx = gemini_fallback_answer ctx"
  "genai g = Some llm \<Longrightarrow> llm (model_name g) (build_prompt q ctx) = Inr (Some txt) \<Longrightarrow>
     strip txt = [] \<Longrightarrow> generate (Gemini g) q ctx = gemini_fallback_answer ctx"
  by (simp_all add: generate_def Let_def)

lemma answer_question_reaches_generation:
  assumes "retrieve qp h q = (Inr (text_hits, image_hits), h2)"
    and "assemble_context qp text_hits image_hits = Inr ctx"
  shows "\<exists>resp. answer_question qp h q = (Inr resp, h2)
            \<and> answer_text resp = generate (answer_generator qp) q ctx
            \<and> response_context resp = ctx \<and> question resp = q"
  using assms by (simp add: answer_question_def Let_def)


lemma images_resp_no_payload:
  "\<forall>r\<in>set rs. payload (fst r) = None \<Longrightarrow> images_resp presign ttl rs = Inr []"
proof (induction rs)
  case Nil then show ?case by simp
next
  case (Cons r rs)
  then show ?case
    by (cases r) (simp add: payload_or_empty_def empty_payload_def)
qed

lemma image_ranked_hits: "fst ` set (image_ranked hits) \<subseteq> set hits"
  by (auto simp: image_ranked_def Let_def set_sort_reverse dest!: set_zip_leftD)

lemma assemble_sample:
  "assemble_context (sample_pipeline te ie ag) two_hits two_hits = Inr sample_context"
proof -
  have "\<forall>r\<in>set (image_ranked two_hits). payload (fst r) = None"
    using image_ranked_hits[of two_hits] by (auto simp: two_hits_def)
  then have "images_resp presign ttl (image_ranked two_hits) = Inr []" for presign ttl
    by (rule images_resp_no_payload)
  then show ?thesis by (simp add: assemble_context_def sample_context_def)
qed



section \<open>Ingestion: count mismatches and missing credentials\<close>

lemma names_api_key_missing: "names_api_key ''GEMINI_API_KEY or GOOGLE_API_KEY is missing''"
  by (simp add: names_api_key_def)

lemma not_names_api_key_mismatch:
  "\<not> names_api_key ''Mismatch between text blocks and embeddings count''"
  "\<not> names_api_key ''Mismatch between image blocks and embeddings count''"
  by (simp_all add: names_api_key_def)

lemma text_stage_effects:
  "text_stage ip st pdf_id doc_title text_blocks = (r, st1) \<Longrightarrow>
   uploads st1 = uploads st \<and> calls st1 = calls st"
  by (auto simp: text_stage_def Let_def split: if_splits sum.splits)

lemma text_stage_mismatch:
  assumes "filter (\<lambda>b. strip (tb_text b) \<noteq> []) text_blocks = non_blank" and "non_blank \<noteq> []"
    and "embed_texts_of ip (map tb_text non_blank) = Inr vectors"
    and "length vectors \<noteq> length non_blank"
  shows "text_stage ip st pdf_id doc_title text_blocks
           = (Inl (Exn RuntimeError ''Mismatch between text blocks and embeddings count''), st)"
  using assms
  by (simp add: text_stage_def text_try_body_def Let_def not_names_api_key_mismatch)

lemma image_stage_mismatch:
  assumes "image_blocks \<noteq> []"
    and "upload_all ip pdf_id (uploads st1) image_blocks = (Inr s3_keys, ups)"
    and "embed_images_of ip (map ib_image_bytes image_blocks) = Inr img_vectors"
    and "length img_vectors \<noteq> length image_blocks"
  shows "image_stage ip st1 pdf_id doc_title image_blocks
           = (Inl (Exn RuntimeError ''Mismatch between image blocks and embeddings count''),
              st1\<lparr>uploads := ups\<rparr>)"
  using assms by (simp add: image_stage_def Let_def)



lemma strip_revenue: "strip ''Revenue grew 12%.'' = ''Revenue grew 12%.''"
  by (simp add: strip_def is_space_def)

lemma upload_all_sample:
  "upload_all (sample_ingestion et ei) ''doc'' []
     [\<lparr>ib_page_number = 1, ib_image_bytes = ''PNG'', ib_mime_type = ''image/png'',
       ib_width_px = 64, ib_height_px = 64\<rparr>]
   = (Inr [''images/doc/page_1/0.png''],
      [\<lparr>up_image_bytes = ''PNG'', up_mime_type = ''image/png'', up_pdf_id = ''doc'',
        up_page_number = 1\<rparr>])"
  by (simp add: sample_ingestion_def)



lemma upload_all_parse_text:
  "upload_all (ip\<lparr>parse_text := f\<rparr>) pdf_id ups imgs = upload_all ip pdf_id ups imgs"
  by (induction imgs arbitrary: ups) (auto simp: Let_def split: sum.splits prod.splits)

lemma build_image_points_parse_text:
  "build_image_points (ip\<lparr>parse_text := f\<rparr>) pdf_id doc_title i j xs
     = build_image_points ip pdf_id doc_title i j xs"
  by (induction xs arbitrary: i j) (auto simp: Let_def)

lemma image_stage_parse_text:
  "image_stage (ip\<lparr>parse_text := f\<rparr>) st pdf_id doc_title imgs
     = image_stage ip st pdf_id doc_title imgs"
  by (auto simp: image_stage_def upload_all_parse_text build_image_points_parse_text Let_def
      split: sum.splits prod.splits)

lemma upsert_stage_parse_text:
  "upsert_stage (ip\<lparr>parse_text := f\<rparr>) st tps ips = upsert_stage ip st tps ips"
  by (auto simp: upsert_stage_def split: sum.splits prod.splits)

lemma image_stage_warnings:
  "image_stage ip (st\<lparr>warnings := w\<rparr>) pdf_id doc_title imgs
     = (case image_stage ip st pdf_id doc_title imgs of (r, s) \<Rightarrow> (r, s\<lparr>warnings := w\<rparr>))"
  by (auto simp: image_stage_def Let_def split: prod.splits sum.splits)

lemma upsert_stage_warnings:
  "upsert_stage ip (st\<lparr>warnings := w\<rparr>) tps ips
     = (case upsert_stage ip st tps ips of (r, s) \<Rightarrow> (r, s\<lparr>warnings := w\<rparr>))"
  by (auto simp: upsert_stage_def Let_def split: prod.splits sum.splits)

lemma text_stage_credentials:
  assumes "filter (\<lambda>b. strip (tb_text b) \<noteq> []) text_blocks = non_blank" and "non_blank \<noteq> []"
    and "embed_texts_of ip (map tb_text non_blank) = Inl e"
  shows "names_api_key (str_exn e) \<Longrightarrow>
           text_stage ip st pdf_id doc_title text_blocks
             = (Inr [], st\<lparr>warnings := warnings st @ [''Skipping text embeddings: '' @ str_exn e]\<rparr>)"
    and "\<not> names_api_key (str_exn e) \<Longrightarrow>
           text_stage ip st pdf_id doc_title text_blocks = (Inl e, st)"
  using assms by (simp_all add: text_stage_def text_try_body_def Let_def)

lemma ingest_pdf_without_text:
  assumes "pdf_id \<noteq> []" and "parse_images ip pdf_bytes = Inr image_blocks"
  shows "ingest_pdf (ip\<lparr>parse_text := (\<lambda>b. Inr [])\<rparr>) st pdf_bytes pdf_id doc_title
           = (case image_stage ip st pdf_id doc_title image_blocks of
                (Inl e, st2) \<Rightarrow> (Inl e, st2)
              | (Inr image_points, st2) \<Rightarrow> upsert_stage ip st2 [] image_points)"
  using assms
  by (auto simp: ingest_pdf_def text_stage_def image_stage_parse_text upsert_stage_parse_text
      split: sum.splits prod.splits)



lemma embed_images_unit: "embed_images unit_image_embedder [''PNG''] = Inr [unit_vector 768]"
  by (simp add: unit_image_embedder_def map_f32_unit_vector np_linalg_norm_unit_vector)

lemma not_names_api_key_refused: "\<not> names_api_key (str_exn connection_refused)"
  by (simp add: names_api_key_def connection_refused_def)



end
